theory Spec2Isabelle
  imports Main "HOL-Library.Word"
begin

unbundle bit_operations_syntax

section \<open>Values shared by the decoder and the encoder module\<close>

text \<open>
  Floating point values are kept as the expressions that compute them: a conversion from
  an integer, a decimal literal (\<open>DblDecimal 16 (- 1)\<close> is \<open>1.6\<close>), a quotient, a
  product, a sum, a narrowing from double, or a value read from memory (its bit pattern).
  No rounding is evaluated, so an equation between two such expressions holds for every
  floating point arithmetic. A \<open>size_t\<close> computed from a double is kept the same way.
\<close>

datatype dbl =
    DblBits "64 word"
  | DblOfInt int
  | DblDecimal int int
  | DblDiv dbl dbl
  | DblMul dbl dbl
  | DblAdd dbl dbl

datatype flt =
    FltBits "32 word"
  | FltOfInt int
  | FltOfDbl dbl
  | FltDiv flt flt

datatype size_expr =
    SizeOfDbl dbl
  | SizeDiv size_expr int

text \<open>
  What stops the C program where the model returns no value: a read through a null
  pointer, an access beyond an array, a division by zero, \<open>av_assert0\<close> failing, and
  the lock loop
  \<open>while (pthread_mutex_trylock(&g.avc_mutex)) nanosleep(...)\<close> entered by the thread
  that already holds the mutex.
\<close>

datatype fault = NullDeref | OutOfBounds | DivideByZero | AssertFailed | SpinForever

text \<open>
  The calls into the codec open/close API and the operations on \<open>g.avc_mutex\<close>,
  in the order one thread makes them.
\<close>

datatype event = MutexLock | MutexUnlock | AvcodecOpen2 | AvcodecClose

text \<open>libavutil's sample formats (\<open>enum AVSampleFormat\<close>).\<close>

datatype sample_fmt =
    AV_SAMPLE_FMT_NONE
  | AV_SAMPLE_FMT_U8
  | AV_SAMPLE_FMT_S16
  | AV_SAMPLE_FMT_S32
  | AV_SAMPLE_FMT_FLT
  | AV_SAMPLE_FMT_DBL
  | AV_SAMPLE_FMT_U8P
  | AV_SAMPLE_FMT_S16P
  | AV_SAMPLE_FMT_S32P
  | AV_SAMPLE_FMT_FLTP
  | AV_SAMPLE_FMT_DBLP

text \<open>libavutil's channel layout masks: front left 1, front right 2, front centre 4.\<close>

definition AV_CH_LAYOUT_MONO :: "64 word" where
  "AV_CH_LAYOUT_MONO = 4"

definition AV_CH_LAYOUT_STEREO :: "64 word" where
  "AV_CH_LAYOUT_STEREO = 3"

section \<open>live\_webm\_encoder.c\<close>

subsection \<open>Data\<close>

text \<open>
  The members of \<open>enum packet_flags\<close> are declared in a header that is not among the
  sources, so their values are parameters of the model.
\<close>

record packet_flag_values =
  PF_INITIAL :: "32 word"
  PF_FINAL :: "32 word"
  PF_HEADER :: "32 word"
  PF_SUPPRESS :: "32 word"
  PF_WEBM :: "32 word"

text \<open>
  \<open>enum encoder_state\<close>, the codec selector and the two results \<open>SUCCEEDED\<close> and
  \<open>FAILED\<close> come from the same missing headers; the members listed are the ones this
  module names.
\<close>

datatype encoder_state = ES_STOPPED | ES_STARTING | ES_RUNNING | ES_STOPPING

datatype encoder_codec = ENCODER_CODEC_VORBIS | ENCODER_CODEC_OPUS | ENCODER_CODEC_OTHER

datatype status = SUCCEEDED | FAILED

datatype codec_id =
    AV_CODEC_ID_VORBIS
  | AV_CODEC_ID_OPUS
  | CODEC_ID_MUSEPACK7
  | CODEC_ID_MUSEPACK8
  | CODEC_ID_OTHER

datatype media_type = AVMEDIA_TYPE_AUDIO | AVMEDIA_TYPE_OTHER

text \<open>
  The two \<open>WebMState\<close> objects of one encoder: the one \<open>encoder_private\<close> points
  to (\<open>self\<close>) and \<open>self->metadata\<close>. In \<open>struct encoder\<close> below,
  \<open>encoder_private\<close> and \<open>run_encoder\<close> say whether the pointer is set.
\<close>

datatype ws_ptr = PSelf | PMetadata

text \<open>The fields of \<open>struct encoder\<close> this module reads or writes.\<close>

record encoder =
  encoder_state :: encoder_state
  run_request_f :: bool
  flush :: bool
  new_metadata :: bool
  use_metadata :: bool
  data_format_codec :: encoder_codec
  bitrate :: int
  target_samplerate :: int
  n_channels :: int
  oggserial :: int
  timestamp :: dbl
  custom_meta :: string
  run_encoder :: bool
  encoder_private :: bool

record AVCodec =
  codec_type :: media_type
  sample_fmts :: "sample_fmt list option"
  capabilities :: "32 word"

record AVCodecContext =
  codec_id :: codec_id
  sample_fmt :: sample_fmt
  bit_rate :: int
  sample_rate :: int
  channels :: int
  channel_layout :: "64 word"
  flags :: "32 word"
  frame_size :: int
  codec :: "AVCodec option"

record AVStream =
  stream_id :: int
  time_base :: "int \<times> int"
  stream_codec :: AVCodecContext

record AVFrame =
  format :: sample_fmt
  frame_channel_layout :: "64 word"
  frame_sample_rate :: int
  nb_samples :: int
  pts :: int

record AVOutputFormat =
  oformat_flags :: "32 word"

record AVIOContext =
  buffer :: bool

record AVFormatContext =
  oformat :: "AVOutputFormat option"
  pb :: bool
  metadata_title :: "string option"

record WebMState =
  st :: "AVStream option"
  next_pts :: int
  samples_count :: int
  frame :: "AVFrame option"
  tmp_frame :: "AVFrame option"
  swr_ctx :: bool
  oc :: "AVFormatContext option"
  avio_ctx :: "AVIOContext option"
  packet_flags :: "32 word"

record packet_header =
  hdr_bit_rate :: int
  hdr_sample_rate :: int
  hdr_n_channels :: int
  hdr_flags :: "32 word"
  hdr_data_size :: int
  hdr_serial :: int
  hdr_timestamp :: dbl

record encoder_op_packet =
  header :: packet_header
  data :: "8 word list option"

text \<open>The objects the libraries hand out and take back, counted by kind.\<close>

datatype resource =
    ResFormatContext
  | ResAvioBuffer
  | ResAvioContext
  | ResOpenCodec
  | ResFrame
  | ResSwr
  | ResWebMState
  | ResDecoderVars
  | ResInput
  | ResPacket
  | ResDataOut
  | ResSrcState
  | ResFloatSamples

text \<open>
  What one call into a library (or into a part of the application that is not among the
  sources) answers. Each call reads the entry of its own turn and takes from it the
  field of its result type; \<open>callbacks\<close> are the buffers the muxer passes to the
  write callback during the call.
\<close>

record lib_outcome =
  ret_int :: int
  ret_ok :: bool
  ret_codec :: "AVCodec option"
  ret_stream :: "AVStream option"
  ret_oformat :: "AVOutputFormat option"
  ret_frame_size :: int
  got_packet :: bool
  callbacks :: "(8 word list option \<times> int) list"
  ret_chapter :: "nat option"
  ret_streams :: "AVCodecContext list"

text \<open>
  What both modules share: the live objects, the trace of events, whether the calling
  thread holds \<open>g.avc_mutex\<close>, and the number of library calls made so far.
\<close>

record sys =
  live :: "resource list"
  trace :: "event list"
  held :: bool
  tick :: nat

record world = sys +
  enc :: encoder
  ws_self :: WebMState
  ws_meta :: WebMState
  sent :: "encoder_op_packet list"

definition ws :: "ws_ptr \<Rightarrow> world \<Rightarrow> WebMState" where
  "ws p w = (case p of PSelf \<Rightarrow> ws_self w | PMetadata \<Rightarrow> ws_meta w)"

definition set_ws :: "ws_ptr \<Rightarrow> WebMState \<Rightarrow> world \<Rightarrow> world" where
  "set_ws p s w = (case p of PSelf \<Rightarrow> w\<lparr>ws_self := s\<rparr> | PMetadata \<Rightarrow> w\<lparr>ws_meta := s\<rparr>)"

definition next_outcome ::
  "(nat \<Rightarrow> lib_outcome) \<Rightarrow> 'a sys_scheme \<Rightarrow> lib_outcome \<times> 'a sys_scheme" where
  "next_outcome lib w = (lib (tick w), w\<lparr>tick := Suc (tick w)\<rparr>)"

definition acquire :: "resource \<Rightarrow> 'a sys_scheme \<Rightarrow> 'a sys_scheme" where
  "acquire r w = w\<lparr>live := r # live w\<rparr>"

definition release :: "resource \<Rightarrow> 'a sys_scheme \<Rightarrow> 'a sys_scheme" where
  "release r w = w\<lparr>live := remove1 r (live w)\<rparr>"

definition log_event :: "event \<Rightarrow> 'a sys_scheme \<Rightarrow> 'a sys_scheme" where
  "log_event e w = w\<lparr>trace := trace w @ [e]\<rparr>"

text \<open>
  \<open>while (pthread_mutex_trylock(&g.avc_mutex)) nanosleep(&time_delay, NULL);\<close> and
  \<open>pthread_mutex_unlock(&g.avc_mutex)\<close>, seen from the calling thread.
\<close>

definition mutex_lock :: "'a sys_scheme \<Rightarrow> fault + 'a sys_scheme" where
  "mutex_lock w =
     (if held w then Inl SpinForever
      else Inr (log_event MutexLock (w\<lparr>held := True\<rparr>)))"

definition mutex_unlock :: "'a sys_scheme \<Rightarrow> 'a sys_scheme" where
  "mutex_unlock w = log_event MutexUnlock (w\<lparr>held := False\<rparr>)"

subsection \<open>Packets\<close>

definition write_packet ::
  "packet_flag_values \<Rightarrow> ws_ptr \<Rightarrow> 8 word list option \<Rightarrow> int \<Rightarrow> world \<Rightarrow> int \<times> world" where
  "write_packet pf self buf buf_size w =
     (let encoder = enc w;
          w1 = (if packet_flags (ws self w) AND PF_SUPPRESS pf = 0 then
                  (let ts = DblDiv (DblOfInt (next_pts (ws self w)))
                                   (DblOfInt (target_samplerate encoder));
                       packet = \<lparr>header = \<lparr>hdr_bit_rate = bitrate encoder,
                                            hdr_sample_rate = target_samplerate encoder,
                                            hdr_n_channels = n_channels encoder,
                                            hdr_flags = PF_WEBM pf OR packet_flags (ws self w),
                                            hdr_data_size = buf_size,
                                            hdr_serial = oggserial encoder,
                                            hdr_timestamp = ts\<rparr>,
                                 data = buf\<rparr>
                   in w\<lparr>enc := encoder\<lparr>timestamp := ts\<rparr>, sent := sent w @ [packet]\<rparr>)
                else w);
          w2 = set_ws self ((ws self w1)\<lparr>packet_flags :=
                              packet_flags (ws self w1) AND NOT (PF_INITIAL pf)\<rparr>) w1
      in (1, w2))"

text \<open>
  The muxer writes through the \<open>AVIOContext\<close> that \<open>setup\<close> creates with
  \<open>write_packet\<close> as its write callback and \<open>self\<close> as its opaque pointer.
\<close>

fun run_callbacks ::
  "packet_flag_values \<Rightarrow> ws_ptr \<Rightarrow> (8 word list option \<times> int) list \<Rightarrow> world \<Rightarrow> world" where
  "run_callbacks pf self [] w = w"
| "run_callbacks pf self (b # bs) w =
     run_callbacks pf self bs (snd (write_packet pf self (fst b) (snd b) w))"

text \<open>
  A muxer call (\<open>avformat_write_header\<close>, \<open>av_write_trailer\<close>, \<open>av_write_frame\<close>):
  its callbacks, then its result.
\<close>

definition muxer_call ::
  "packet_flag_values \<Rightarrow> (nat \<Rightarrow> lib_outcome) \<Rightarrow> ws_ptr \<Rightarrow> world \<Rightarrow> int \<times> world" where
  "muxer_call pf lib self w =
     (let (out, w1) = next_outcome lib w
      in (ret_int out, run_callbacks pf self (callbacks out) w1))"

definition or_packet_flags :: "ws_ptr \<Rightarrow> 32 word \<Rightarrow> world \<Rightarrow> world" where
  "or_packet_flags self m w =
     set_ws self ((ws self w)\<lparr>packet_flags := packet_flags (ws self w) OR m\<rparr>) w"

definition clear_packet_flags :: "ws_ptr \<Rightarrow> 32 word \<Rightarrow> world \<Rightarrow> world" where
  "clear_packet_flags self m w =
     set_ws self ((ws self w)\<lparr>packet_flags := packet_flags (ws self w) AND NOT m\<rparr>) w"

definition write_header ::
  "packet_flag_values \<Rightarrow> (nat \<Rightarrow> lib_outcome) \<Rightarrow> ws_ptr \<Rightarrow> 32 word \<Rightarrow> world \<Rightarrow> int \<times> world" where
  "write_header pf lib self extra_flags w =
     (let w1 = (if extra_flags AND PF_SUPPRESS pf = 0
                then w\<lparr>enc := (enc w)\<lparr>oggserial := oggserial (enc w) + 1\<rparr>\<rparr>
                else w);
          w2 = or_packet_flags self (PF_HEADER pf OR PF_INITIAL pf OR extra_flags) w1;
          (ret, w3) = muxer_call pf lib self w2;
          w4 = clear_packet_flags self (PF_HEADER pf OR extra_flags) w3
      in (ret, w4))"

definition write_trailer ::
  "packet_flag_values \<Rightarrow> (nat \<Rightarrow> lib_outcome) \<Rightarrow> ws_ptr \<Rightarrow> 32 word \<Rightarrow> world \<Rightarrow> int \<times> world" where
  "write_trailer pf lib self extra_flags w =
     (let w1 = or_packet_flags self extra_flags w;
          (ret, w2) = muxer_call pf lib self w1;
          w3 = or_packet_flags self (PF_FINAL pf) w2;
          w4 = snd (write_packet pf self None 0 w3);
          w5 = clear_packet_flags self (PF_FINAL pf OR extra_flags) w4
      in (ret, w5))"

subsection \<open>Streams\<close>

text \<open>Constants of libavformat and libavcodec.\<close>

definition AVFMT_GLOBALHEADER :: "32 word" where
  "AVFMT_GLOBALHEADER = 0x0040"

definition AV_CODEC_FLAG_GLOBAL_HEADER :: "32 word" where
  "AV_CODEC_FLAG_GLOBAL_HEADER = push_bit 22 1"

definition AV_CODEC_CAP_VARIABLE_FRAME_SIZE :: "32 word" where
  "AV_CODEC_CAP_VARIABLE_FRAME_SIZE = push_bit 16 1"

definition AV_NOPTS_VALUE :: int where
  "AV_NOPTS_VALUE = - (2 ^ 63)"

definition add_stream ::
  "(nat \<Rightarrow> lib_outcome) \<Rightarrow> ws_ptr \<Rightarrow> codec_id \<Rightarrow> int \<Rightarrow> int \<Rightarrow> int \<Rightarrow> world
     \<Rightarrow> fault + (AVCodec option \<times> world)" where
  "add_stream lib self cid br sr ch w =
     (let (o1, w1) = next_outcome lib w \<comment> \<open>\<open>avcodec_find_encoder(codec_id)\<close>\<close>
      in case ret_codec o1 of
           None \<Rightarrow> Inr (None, w1)
         | Some cdc \<Rightarrow>
             if codec_type cdc \<noteq> AVMEDIA_TYPE_AUDIO then Inr (None, w1)
             else
               (let (o2, w2) = next_outcome lib w1; \<comment> \<open>\<open>avformat_new_stream\<close>\<close>
                    w3 = set_ws self ((ws self w2)\<lparr>st := ret_stream o2\<rparr>) w2
                in case ret_stream o2 of
                     None \<Rightarrow> Inr (None, w3)
                   | Some s \<Rightarrow>
                       (let c = (stream_codec s)
                                  \<lparr>sample_fmt := (case sample_fmts cdc of
                                                      None \<Rightarrow> AV_SAMPLE_FMT_FLTP
                                                    | Some [] \<Rightarrow> AV_SAMPLE_FMT_NONE
                                                    | Some (f # _) \<Rightarrow> f),
                                   bit_rate := br,
                                   sample_rate := sr,
                                   channels := ch,
                                   channel_layout := (if ch = 2 then AV_CH_LAYOUT_STEREO
                                                      else AV_CH_LAYOUT_MONO)\<rparr>;
                            s1 = s\<lparr>stream_id := 0, time_base := (1, sr), stream_codec := c\<rparr>
                        in case oc (ws self w3) of
                             None \<Rightarrow> Inl NullDeref
                           | Some ctx \<Rightarrow>
                               (case oformat ctx of
                                  None \<Rightarrow> Inl NullDeref
                                | Some fmt \<Rightarrow>
                                    (let c2 = (if oformat_flags fmt AND AVFMT_GLOBALHEADER \<noteq> 0
                                               then c\<lparr>flags := flags c OR AV_CODEC_FLAG_GLOBAL_HEADER\<rparr>
                                               else c)
                                     in Inr (Some cdc,
                                             set_ws self ((ws self w3)
                                               \<lparr>st := Some (s1\<lparr>stream_codec := c2\<rparr>)\<rparr>) w3))))))"

definition alloc_audio_frame ::
  "(nat \<Rightarrow> lib_outcome) \<Rightarrow> sample_fmt \<Rightarrow> 64 word \<Rightarrow> int \<Rightarrow> int \<Rightarrow> world
     \<Rightarrow> AVFrame option \<times> world" where
  "alloc_audio_frame lib fmt layout rate n w =
     (let (o1, w1) = next_outcome lib w \<comment> \<open>\<open>av_frame_alloc\<close>\<close>
      in if \<not> ret_ok o1 then (None, w1)
         else
           (let w2 = acquire ResFrame w1;
                fr = \<lparr>format = fmt, frame_channel_layout = layout, frame_sample_rate = rate,
                      nb_samples = n, pts = AV_NOPTS_VALUE\<rparr>
            in if n \<noteq> 0 then
                 (let (o2, w3) = next_outcome lib w2 \<comment> \<open>\<open>av_frame_get_buffer\<close>\<close>
                  in if ret_int o2 < 0 then (None, release ResFrame w3) else (Some fr, w3))
               else (Some fr, w2)))"

definition avcodec_close :: "'a sys_scheme \<Rightarrow> 'a sys_scheme" where
  "avcodec_close w = release ResOpenCodec (log_event AvcodecClose w)"

text \<open>\<open>av_frame_free(&self->frame)\<close>, \<open>av_frame_free(&self->tmp_frame)\<close> and
  \<open>swr_free(&self->swr_ctx)\<close>: each frees what the pointer holds and clears it.\<close>

definition free_frame :: "ws_ptr \<Rightarrow> world \<Rightarrow> world" where
  "free_frame self w =
     (let w1 = (if frame (ws self w) \<noteq> None then release ResFrame w else w)
      in set_ws self ((ws self w1)\<lparr>frame := None\<rparr>) w1)"

definition free_tmp_frame :: "ws_ptr \<Rightarrow> world \<Rightarrow> world" where
  "free_tmp_frame self w =
     (let w1 = (if tmp_frame (ws self w) \<noteq> None then release ResFrame w else w)
      in set_ws self ((ws self w1)\<lparr>tmp_frame := None\<rparr>) w1)"

definition swr_free :: "ws_ptr \<Rightarrow> world \<Rightarrow> world" where
  "swr_free self w =
     (let w1 = (if swr_ctx (ws self w) then release ResSwr w else w)
      in set_ws self ((ws self w1)\<lparr>swr_ctx := False\<rparr>) w1)"

text \<open>The options set on the resampler context between \<open>swr_alloc\<close> and
  \<open>swr_init\<close> stay inside the library and are not part of the state.\<close>

definition open_stream ::
  "(nat \<Rightarrow> lib_outcome) \<Rightarrow> ws_ptr \<Rightarrow> AVCodec \<Rightarrow> world \<Rightarrow> fault + (int \<times> world)" where
  "open_stream lib self cdc w =
     (case st (ws self w) of
        None \<Rightarrow> Inl NullDeref
      | Some s \<Rightarrow>
          (case mutex_lock w of
             Inl e \<Rightarrow> Inl e
           | Inr w1 \<Rightarrow>
               (let (o1, w2) = next_outcome lib w1; \<comment> \<open>\<open>avcodec_open2\<close>\<close>
                    ret = ret_int o1;
                    w3 = log_event AvcodecOpen2 w2;
                    c = (if ret < 0 then stream_codec s
                         else (stream_codec s)\<lparr>codec := Some cdc,
                                                frame_size := ret_frame_size o1\<rparr>);
                    w4 = (if ret < 0 then w3 else acquire ResOpenCodec w3);
                    w5 = mutex_unlock
                           (set_ws self ((ws self w4)\<lparr>st := Some (s\<lparr>stream_codec := c\<rparr>)\<rparr>) w4)
                in if ret < 0 then Inr (0, w5)
                   else
                     (let n = (if capabilities cdc AND AV_CODEC_CAP_VARIABLE_FRAME_SIZE \<noteq> 0
                               then 10000 else frame_size c);
                          (f1, w6) = alloc_audio_frame lib (sample_fmt c) (channel_layout c)
                                       (sample_rate c) n w5;
                          w7 = set_ws self ((ws self w6)\<lparr>frame := f1\<rparr>) w6;
                          (f2, w8) = alloc_audio_frame lib AV_SAMPLE_FMT_FLTP (channel_layout c)
                                       (sample_rate c) n w7;
                          w9 = set_ws self ((ws self w8)\<lparr>tmp_frame := f2\<rparr>) w8;
                          (o2, w10) = next_outcome lib w9 \<comment> \<open>\<open>swr_alloc\<close>\<close>
                      in if \<not> ret_ok o2
                         then Inr (0, avcodec_close
                                        (set_ws self ((ws self w10)\<lparr>swr_ctx := False\<rparr>) w10))
                         else
                           (let w11 = acquire ResSwr
                                        (set_ws self ((ws self w10)\<lparr>swr_ctx := True\<rparr>) w10);
                                (o3, w12) = next_outcome lib w11 \<comment> \<open>\<open>swr_init\<close>\<close>
                            in if ret_int o3 < 0
                               then Inr (0, avcodec_close (swr_free self w12))
                               else Inr (1, w12))))))"

definition get_audio_frame ::
  "(nat \<Rightarrow> lib_outcome) \<Rightarrow> ws_ptr \<Rightarrow> world \<Rightarrow> fault + (AVFrame option \<times> world)" where
  "get_audio_frame lib self w =
     (case tmp_frame (ws self w) of
        None \<Rightarrow> Inl NullDeref
      | Some fr \<Rightarrow>
          (let (o1, w1) = next_outcome lib w \<comment> \<open>\<open>encoder_get_input_data\<close>\<close>
           in if ret_ok o1 then
                (let fr1 = fr\<lparr>pts := next_pts (ws self w1)\<rparr>
                 in Inr (Some fr1,
                         set_ws self ((ws self w1)
                           \<lparr>tmp_frame := Some fr1,
                            next_pts := next_pts (ws self w1) + nb_samples fr1\<rparr>) w1))
              else Inr (None, w1)))"

text \<open>Lines 227 to 237 of \<open>write_audio_frame\<close>: encode, write, and the result.\<close>

definition encode_and_write ::
  "packet_flag_values \<Rightarrow> (nat \<Rightarrow> lib_outcome) \<Rightarrow> ws_ptr \<Rightarrow> world \<Rightarrow> int \<times> world" where
  "encode_and_write pf lib self w =
     (let (o1, w1) = next_outcome lib w \<comment> \<open>\<open>avcodec_encode_audio2\<close>\<close>
      in if ret_int o1 < 0 then (- 1, w1)
         else if got_packet o1 then
           (let (r, w2) = muxer_call pf lib self w1 \<comment> \<open>\<open>av_write_frame\<close>\<close>
            in if r < 0 then (- 1, w2)
               else (if run_request_f (enc w2) then 0 else 1, w2))
         else (if run_request_f (enc w1) then 0 else 1, w1))"

text \<open>\<open>dst_nb_samples\<close> is computed by the libraries (\<open>swr_get_delay\<close>,
  \<open>av_rescale_rnd\<close>), and so is the frame's new \<open>pts\<close> (\<open>av_rescale_q\<close>).\<close>

definition write_audio_frame ::
  "packet_flag_values \<Rightarrow> (nat \<Rightarrow> lib_outcome) \<Rightarrow> ws_ptr \<Rightarrow> world \<Rightarrow> fault + (int \<times> world)" where
  "write_audio_frame pf lib self w =
     (case st (ws self w) of
        None \<Rightarrow> Inl NullDeref
      | Some s \<Rightarrow>
          (case (if run_request_f (enc w) then get_audio_frame lib self w else Inr (None, w)) of
             Inl e \<Rightarrow> Inl e
           | Inr (None, w1) \<Rightarrow> Inr (encode_and_write pf lib self w1)
           | Inr (Some fr, w1) \<Rightarrow>
               (let (o1, w2) = next_outcome lib w1; \<comment> \<open>\<open>dst_nb_samples\<close>\<close>
                    dst_nb_samples = ret_int o1
                in if dst_nb_samples \<noteq> nb_samples fr then Inl AssertFailed
                   else
                     (let (o2, w3) = next_outcome lib w2 \<comment> \<open>\<open>av_frame_make_writable\<close>\<close>
                      in if ret_int o2 < 0 then Inr (- 1, w3)
                         else
                           (case frame (ws self w3) of
                              None \<Rightarrow> Inl NullDeref
                            | Some g \<Rightarrow>
                                (let (o3, w4) = next_outcome lib w3 \<comment> \<open>\<open>swr_convert\<close>\<close>
                                 in if ret_int o3 < 0 then Inr (- 1, w4)
                                    else
                                      (let (o4, w5) = next_outcome lib w4; \<comment> \<open>\<open>av_rescale_q\<close>\<close>
                                           w6 = set_ws self ((ws self w5)
                                                  \<lparr>frame := Some (g\<lparr>pts := ret_int o4\<rparr>),
                                                   samples_count := samples_count (ws self w5)
                                                                      + dst_nb_samples\<rparr>) w5
                                       in Inr (encode_and_write pf lib self w6))))))))"

definition close_stream :: "ws_ptr \<Rightarrow> world \<Rightarrow> fault + world" where
  "close_stream self w =
     (case st (ws self w) of
        None \<Rightarrow> Inl NullDeref
      | Some s \<Rightarrow> Inr (swr_free self (free_tmp_frame self (free_frame self (avcodec_close w)))))"

subsection \<open>Set-up and tear-down\<close>

text \<open>
  \<open>avformat_free_context(self->oc)\<close> frees the context with its streams and leaves the
  pointer as it is; \<open>av_freep(&self->avio_ctx->buffer)\<close> reads through
  \<open>self->avio_ctx\<close>.
\<close>

definition avformat_free_context :: "ws_ptr \<Rightarrow> world \<Rightarrow> world" where
  "avformat_free_context self w =
     (if oc (ws self w) \<noteq> None then release ResFormatContext w else w)"

definition av_freep_avio_buffer :: "ws_ptr \<Rightarrow> world \<Rightarrow> fault + world" where
  "av_freep_avio_buffer self w =
     (case avio_ctx (ws self w) of
        None \<Rightarrow> Inl NullDeref
      | Some a \<Rightarrow>
          (let w1 = (if buffer a then release ResAvioBuffer w else w)
           in Inr (set_ws self ((ws self w1)\<lparr>avio_ctx := Some (a\<lparr>buffer := False\<rparr>)\<rparr>) w1)))"

definition av_freep_avio_ctx :: "ws_ptr \<Rightarrow> world \<Rightarrow> world" where
  "av_freep_avio_ctx self w =
     (let w1 = (if avio_ctx (ws self w) \<noteq> None then release ResAvioContext w else w)
      in set_ws self ((ws self w1)\<lparr>avio_ctx := None\<rparr>) w1)"

text \<open>The labels at the end of \<open>setup\<close>, each falling through to the next.\<close>

definition fail1 :: "world \<Rightarrow> fault + (status \<times> world)" where
  "fail1 w = Inr (FAILED, w)"

definition fail2 :: "ws_ptr \<Rightarrow> world \<Rightarrow> fault + (status \<times> world)" where
  "fail2 self w = fail1 (avformat_free_context self w)"

definition fail3 :: "ws_ptr \<Rightarrow> world \<Rightarrow> fault + (status \<times> world)" where
  "fail3 self w =
     (case av_freep_avio_buffer self w of
        Inl e \<Rightarrow> Inl e
      | Inr w1 \<Rightarrow> fail2 self w1)"

definition fail4 :: "ws_ptr \<Rightarrow> world \<Rightarrow> fault + (status \<times> world)" where
  "fail4 self w =
     (case av_freep_avio_buffer self w of
        Inl e \<Rightarrow> Inl e
      | Inr w1 \<Rightarrow> fail2 self (av_freep_avio_ctx self w1))"

definition fail5 :: "ws_ptr \<Rightarrow> world \<Rightarrow> fault + (status \<times> world)" where
  "fail5 self w =
     (case close_stream self w of
        Inl e \<Rightarrow> Inl e
      | Inr w1 \<Rightarrow> fail4 self w1)"

text \<open>The source's \<open>setup\<close>; the name is a keyword of Isabelle.\<close>

definition setup_ws ::
  "packet_flag_values \<Rightarrow> (nat \<Rightarrow> lib_outcome) \<Rightarrow> ws_ptr \<Rightarrow> 32 word \<Rightarrow> world
     \<Rightarrow> fault + (status \<times> world)" where
  "setup_ws pf lib self extra_flags w =
     (case (case data_format_codec (enc w) of
              ENCODER_CODEC_VORBIS \<Rightarrow> Some AV_CODEC_ID_VORBIS
            | ENCODER_CODEC_OPUS \<Rightarrow> Some AV_CODEC_ID_OPUS
            | ENCODER_CODEC_OTHER \<Rightarrow> None) of
        None \<Rightarrow> fail1 w
      | Some cid \<Rightarrow>
          (let (o1, w1) = next_outcome lib w \<comment> \<open>\<open>avformat_alloc_context\<close>\<close>
           in if \<not> ret_ok o1
              then fail1 (set_ws self ((ws self w1)\<lparr>oc := None\<rparr>) w1)
              else
                (let (o2, w2) = next_outcome lib (acquire ResFormatContext w1);
                       \<comment> \<open>\<open>av_guess_format\<close>\<close>
                     ctx = \<lparr>oformat = ret_oformat o2, pb = False, metadata_title = None\<rparr>;
                     w3 = set_ws self ((ws self w2)\<lparr>oc := Some ctx\<rparr>) w2
                 in if ret_oformat o2 = None then fail2 self w3
                    else
                      (let (o3, w4) = next_outcome lib w3 \<comment> \<open>\<open>av_malloc\<close>\<close>
                       in if \<not> ret_ok o3 then fail2 self w4
                          else
                            (let (o4, w5) = next_outcome lib (acquire ResAvioBuffer w4)
                                   \<comment> \<open>\<open>avio_alloc_context\<close>\<close>
                             in if \<not> ret_ok o4
                                then fail3 self (set_ws self ((ws self w5)\<lparr>avio_ctx := None\<rparr>) w5)
                                else
                                  (let w6 = acquire ResAvioContext
                                              (set_ws self ((ws self w5)
                                                 \<lparr>avio_ctx := Some \<lparr>buffer = True\<rparr>,
                                                  oc := Some (ctx\<lparr>pb := True\<rparr>)\<rparr>) w5)
                                   in case add_stream lib self cid (bitrate (enc w6))
                                             (target_samplerate (enc w6)) (n_channels (enc w6)) w6 of
                                        Inl e \<Rightarrow> Inl e
                                      | Inr (None, w7) \<Rightarrow> fail4 self w7
                                      | Inr (Some cdc, w7) \<Rightarrow>
                                          (case open_stream lib self cdc w7 of
                                             Inl e \<Rightarrow> Inl e
                                           | Inr (r, w8) \<Rightarrow>
                                               if r = 0 then fail4 self w8
                                               else
                                                 (let w9 = (if custom_meta (enc w8) \<noteq> []
                                                               \<and> use_metadata (enc w8)
                                                            then set_ws self ((ws self w8)
                                                                   \<lparr>oc := map_option
                                                                      (\<lambda>c. c\<lparr>metadata_title :=
                                                                             Some (custom_meta (enc w8))\<rparr>)
                                                                      (oc (ws self w8))\<rparr>) w8
                                                            else w8);
                                                      (r2, w10) = write_header pf lib self extra_flags w9
                                                  in if r2 < 0 then fail5 self w10
                                                     else Inr (SUCCEEDED, w10)))))))))"

definition teardown :: "ws_ptr \<Rightarrow> world \<Rightarrow> fault + world" where
  "teardown self w =
     (case close_stream self w of
        Inl e \<Rightarrow> Inl e
      | Inr w1 \<Rightarrow>
          (case av_freep_avio_buffer self w1 of
             Inl e \<Rightarrow> Inl e
           | Inr w2 \<Rightarrow> Inr (avformat_free_context self (av_freep_avio_ctx self w2))))"

subsection \<open>The encoder's main function\<close>

text \<open>The label \<open>bailout\<close>: the final cleanup.\<close>

definition bailout :: "world \<Rightarrow> world" where
  "bailout w =
     release ResWebMState (release ResWebMState
       (w\<lparr>enc := (enc w)\<lparr>run_request_f := False,
                           encoder_state := ES_STOPPED,
                           run_encoder := False,
                           flush := False,
                           encoder_private := False\<rparr>\<rparr>))"

text \<open>The two blocks of the \<open>ES_RUNNING\<close> branch, lines 405 to 413 and 415 to 422.\<close>

definition on_new_metadata ::
  "packet_flag_values \<Rightarrow> (nat \<Rightarrow> lib_outcome) \<Rightarrow> world \<Rightarrow> fault + world" where
  "on_new_metadata pf lib w =
     (if new_metadata (enc w) \<and> use_metadata (enc w) then
        (let w1 = w\<lparr>enc := (enc w)\<lparr>new_metadata := False\<rparr>\<rparr>;
             w2 = snd (write_trailer pf lib PSelf 0 w1);
             w3 = snd (write_header pf lib PSelf (PF_SUPPRESS pf) w2);
             w4 = snd (write_trailer pf lib PMetadata (PF_SUPPRESS pf) w3)
         in case teardown PMetadata w4 of
              Inl e \<Rightarrow> Inl e
            | Inr w5 \<Rightarrow>
                (case setup_ws pf lib PMetadata 0 w5 of
                   Inl e \<Rightarrow> Inl e
                 | Inr (r, w6) \<Rightarrow> Inr w6))
      else Inr w)"

definition on_flush :: "packet_flag_values \<Rightarrow> (nat \<Rightarrow> lib_outcome) \<Rightarrow> world \<Rightarrow> world" where
  "on_flush pf lib w =
     (if flush (enc w) then
        (let w1 = w\<lparr>enc := (enc w)\<lparr>flush := False\<rparr>\<rparr>;
             w2 = snd (write_trailer pf lib PSelf 0 w1);
             w3 = snd (write_header pf lib PSelf (PF_SUPPRESS pf) w2);
             w4 = snd (write_trailer pf lib PMetadata (PF_SUPPRESS pf) w3)
         in snd (write_header pf lib PMetadata 0 w4))
      else w)"

definition live_webm_encoder_main ::
  "packet_flag_values \<Rightarrow> (nat \<Rightarrow> lib_outcome) \<Rightarrow> world \<Rightarrow> fault + world" where
  "live_webm_encoder_main pf lib w =
     (if \<not> encoder_private (enc w) then Inl NullDeref
      else if encoder_state (enc w) = ES_STARTING then
        (case setup_ws pf lib PSelf (PF_SUPPRESS pf) w of
           Inl e \<Rightarrow> Inl e
         | Inr (r1, w1) \<Rightarrow>
             if r1 = FAILED then Inr (bailout w1)
             else
               (case setup_ws pf lib PMetadata 0 w1 of
                  Inl e \<Rightarrow> Inl e
                | Inr (r2, w2) \<Rightarrow>
                    if r2 = FAILED then
                      (case teardown PSelf w2 of
                         Inl e \<Rightarrow> Inl e
                       | Inr w3 \<Rightarrow> Inr (bailout w3))
                    else if run_request_f (enc w2)
                    then Inr (w2\<lparr>enc := (enc w2)\<lparr>encoder_state := ES_RUNNING\<rparr>\<rparr>)
                    else Inr (w2\<lparr>enc := (enc w2)\<lparr>encoder_state := ES_STOPPING\<rparr>\<rparr>)))
      else if encoder_state (enc w) = ES_RUNNING then
        (case on_new_metadata pf lib w of
           Inl e \<Rightarrow> Inl e
         | Inr w1 \<Rightarrow>
             (case write_audio_frame pf lib PSelf (on_flush pf lib w1) of
                Inl e \<Rightarrow> Inl e
              | Inr (r, w2) \<Rightarrow>
                  if r = 0 then Inr w2
                  else Inr (w2\<lparr>enc := (enc w2)\<lparr>encoder_state := ES_STOPPING\<rparr>\<rparr>)))
      else if encoder_state (enc w) = ES_STOPPING then
        (let w1 = snd (write_trailer pf lib PMetadata (PF_SUPPRESS pf) w);
             w2 = snd (write_trailer pf lib PSelf 0 w1)
         in case teardown PMetadata w2 of
              Inl e \<Rightarrow> Inl e
            | Inr w3 \<Rightarrow>
                (case teardown PSelf w3 of
                   Inl e \<Rightarrow> Inl e
                 | Inr w4 \<Rightarrow>
                     (let w5 = w4\<lparr>enc := (enc w4)\<lparr>flush := False\<rparr>\<rparr>
                      in if run_request_f (enc w5)
                         then Inr (w5\<lparr>enc := (enc w5)\<lparr>encoder_state := ES_STARTING\<rparr>\<rparr>)
                         else Inr (bailout w5))))
      else Inr (bailout w))"

section \<open>avcodecdecode.c\<close>

subsection \<open>Data\<close>

text \<open>
  The player's modes and commands this module sets, and the three callbacks it installs.
  \<open>ACCEPTED\<close>, \<open>REJECTED\<close> and \<open>AVCODEC_MAX_AUDIO_FRAME_SIZE\<close> are defined at the
  top of the source file.
\<close>

datatype playmode = PM_STOPPED | PM_EJECTING | PM_OTHER

datatype command = CMD_COMPLETE | CMD_OTHER

datatype decoder_callback = CB_avcodecdecode_init | CB_avcodecdecode_play | CB_avcodecdecode_eject

definition ACCEPTED :: int where
  "ACCEPTED = 1"

definition REJECTED :: int where
  "REJECTED = 0"

definition AVCODEC_MAX_AUDIO_FRAME_SIZE :: int where
  "AVCODEC_MAX_AUDIO_FRAME_SIZE = 192000"

record SRC_DATA =
  src_ratio :: dbl
  end_of_input :: int
  output_frames :: size_expr
  data_out :: bool
  input_frames :: int
  data_in :: bool
  output_frames_gen :: int

text \<open>
  The fields of \<open>struct xlplayer\<close> this module uses; \<open>dec_data\<close> and \<open>src_state\<close>
  say whether the pointer is set. \<open>samplerate\<close> is unsigned (it is printed with
  \<open>%u\<close> and cast to \<open>int\<close> before it is compared).
\<close>

record xlplayer =
  dec_data :: bool
  dec_init :: "decoder_callback option"
  dec_play :: "decoder_callback option"
  dec_eject :: "decoder_callback option"
  pathname :: string
  play_progress_ms :: int
  seek_s :: int
  samplerate :: "32 word"
  rsqual :: int
  src_state :: bool
  src_data :: SRC_DATA
  playmode :: playmode
  command :: command

text \<open>
  \<open>struct avcodecdecode_vars\<close> (avcodecdecode.h), without the packet copy, the size
  counter and the tag data that only the read loop of \<open>avcodecdecode_play\<close> uses.
  The header declares \<open>unsigned int stream\<close> and \<open>uint8_t *floatsamples\<close>; the
  field \<open>floatsamples\<close> here is the buffer read as floats. \<open>ic\<close> holds the codec
  contexts of the opened input's streams.
\<close>

record avcodecdecode_vars =
  dv_codec :: bool
  pkt_data :: bool
  c :: "AVCodecContext option"
  ic :: "AVCodecContext list option"
  resample :: bool
  stream :: "32 word"
  dv_frame :: "AVFrame option"
  floatsamples :: "flt list option"
  dv_drop :: flt
  current_chapter :: "nat option"
  swr :: bool
  dv_channels :: int

text \<open>Calls into parts of the application that are not among the sources.\<close>

datatype sample_buffer = BufFloatSamples | BufDataOut

datatype app_call =
    SetDynamicMetadata nat int
  | SrcProcess
  | DemuxChannelData sample_buffer int int

record dworld = sys +
  xl :: xlplayer
  vars :: avcodecdecode_vars
  calls :: "app_call list"

subsection \<open>Eject and init\<close>

text \<open>
  The first argument of \<open>avcodecdecode_eject\<close> and \<open>avcodecdecode_reg\<close> says whether
  the file is compiled with \<open>HAVE_SWRESAMPLE\<close>.
\<close>

definition free_packet :: "dworld \<Rightarrow> dworld" where
  "free_packet w =
     (if pkt_data (vars w)
      then release ResPacket (w\<lparr>vars := (vars w)\<lparr>pkt_data := False\<rparr>\<rparr>)
      else w)"

definition delete_resampler :: "dworld \<Rightarrow> dworld" where
  "delete_resampler w =
     (if resample (vars w)
      then release ResDataOut (release ResSrcState (w\<lparr>xl := (xl w)\<lparr>src_state := False\<rparr>\<rparr>))
      else w)"

definition free_floatsamples :: "dworld \<Rightarrow> dworld" where
  "free_floatsamples w =
     (if floatsamples (vars w) \<noteq> None then release ResFloatSamples w else w)"

definition free_swr :: "bool \<Rightarrow> dworld \<Rightarrow> dworld" where
  "free_swr have_swresample w =
     (if have_swresample \<and> swr (vars w)
      then release ResSwr (w\<lparr>vars := (vars w)\<lparr>swr := False\<rparr>\<rparr>)
      else w)"

text \<open>
  \<open>avformat_close_input(&self->ic)\<close>, \<open>if (self->frame) av_free(self->frame)\<close> and
  \<open>free(self)\<close>; \<open>xlplayer->dec_data\<close> keeps pointing at the freed object.
\<close>

definition avformat_close_input :: "dworld \<Rightarrow> dworld" where
  "avformat_close_input w =
     (if ic (vars w) \<noteq> None
      then release ResInput (w\<lparr>vars := (vars w)\<lparr>ic := None\<rparr>\<rparr>)
      else w)"

definition free_dec_frame :: "dworld \<Rightarrow> dworld" where
  "free_dec_frame w = (if dv_frame (vars w) \<noteq> None then release ResFrame w else w)"

definition free_self :: "dworld \<Rightarrow> dworld" where
  "free_self w = release ResDecoderVars w"

definition avcodecdecode_eject :: "bool \<Rightarrow> dworld \<Rightarrow> fault + dworld" where
  "avcodecdecode_eject have_swresample w =
     (if \<not> dec_data (xl w) then Inl NullDeref
      else
        (case mutex_lock (free_swr have_swresample
                            (free_floatsamples (delete_resampler (free_packet w)))) of
           Inl e \<Rightarrow> Inl e
         | Inr w1 \<Rightarrow>
             Inr (free_self (free_dec_frame (avformat_close_input
                    (mutex_unlock (avcodec_close w1)))))))"

text \<open>The two failure exits of \<open>avcodecdecode_init\<close>, lines 105 to 109 and 115 to 119.\<close>

definition init_failed :: "bool \<Rightarrow> dworld \<Rightarrow> fault + dworld" where
  "init_failed have_swresample w =
     (case avcodecdecode_eject have_swresample (w\<lparr>vars := (vars w)\<lparr>resample := False\<rparr>\<rparr>) of
        Inl e \<Rightarrow> Inl e
      | Inr w1 \<Rightarrow> Inr (w1\<lparr>xl := (xl w1)\<lparr>playmode := PM_STOPPED, command := CMD_COMPLETE\<rparr>\<rparr>))"

text \<open>Lines 78 to 90: the seek, and the audio dropped after it for Musepack.\<close>

definition init_seek :: "(nat \<Rightarrow> lib_outcome) \<Rightarrow> AVCodecContext \<Rightarrow> dworld \<Rightarrow> dworld" where
  "init_seek lib ctx w =
     (if seek_s (xl w) \<noteq> 0 then
        (let w1 = snd (next_outcome lib w) \<comment> \<open>\<open>av_seek_frame\<close>\<close>
         in if codec_id ctx = CODEC_ID_MUSEPACK7 \<or> codec_id ctx = CODEC_ID_MUSEPACK8
            then w1\<lparr>vars := (vars w1)\<lparr>dv_drop := FltOfDbl (DblDecimal 16 (- 1))\<rparr>\<rparr>
            else w1)
      else w)"

definition set_src_data :: "(SRC_DATA \<Rightarrow> SRC_DATA) \<Rightarrow> dworld \<Rightarrow> dworld" where
  "set_src_data f w = w\<lparr>xl := (xl w)\<lparr>src_data := f (src_data (xl w))\<rparr>\<rparr>"

text \<open>Lines 111 to 120: \<open>src_new\<close> answers the state in \<open>ret_ok\<close> and
  \<open>src_error\<close> in \<open>ret_int\<close>.\<close>

definition init_src_new :: "bool \<Rightarrow> (nat \<Rightarrow> lib_outcome) \<Rightarrow> dworld \<Rightarrow> fault + dworld" where
  "init_src_new have_swresample lib w =
     (let (o1, w1) = next_outcome lib w;
          w2 = (if ret_ok o1 then acquire ResSrcState w1 else w1);
          w3 = w2\<lparr>xl := (xl w2)\<lparr>src_state := ret_ok o1\<rparr>\<rparr>
      in if ret_int o1 \<noteq> 0
         then init_failed have_swresample (release ResDataOut w3)
         else Inr w3)"

text \<open>Lines 95 to 110: the ratio, the output buffer's size and its allocation.\<close>

definition init_resampler ::
  "bool \<Rightarrow> (nat \<Rightarrow> lib_outcome) \<Rightarrow> AVCodecContext \<Rightarrow> dworld \<Rightarrow> fault + dworld" where
  "init_resampler have_swresample lib ctx w =
     (let ratio = DblDiv (DblOfInt (uint (samplerate (xl w)))) (DblOfInt (sample_rate ctx));
          dsiz = SizeOfDbl
                   (DblAdd (DblMul (DblOfInt (AVCODEC_MAX_AUDIO_FRAME_SIZE * dv_channels (vars w)))
                                   ratio)
                           (DblOfInt 512));
          w1 = set_src_data (\<lambda>d. d\<lparr>src_ratio := ratio,
                                    end_of_input := 0,
                                    output_frames := SizeDiv dsiz (4 * dv_channels (vars w))\<rparr>) w;
          (o1, w2) = next_outcome lib w1; \<comment> \<open>\<open>malloc(dsiz)\<close>\<close>
          w3 = set_src_data (\<lambda>d. d\<lparr>data_out := ret_ok o1\<rparr>) w2
      in if \<not> ret_ok o1 then init_failed have_swresample w3
         else init_src_new have_swresample lib (acquire ResDataOut w3))"

definition avcodecdecode_init ::
  "bool \<Rightarrow> (nat \<Rightarrow> lib_outcome) \<Rightarrow> dworld \<Rightarrow> fault + dworld" where
  "avcodecdecode_init have_swresample lib w =
     (if \<not> dec_data (xl w) then Inl NullDeref
      else
        (case c (vars w) of
           None \<Rightarrow> Inl NullDeref
         | Some ctx \<Rightarrow>
             (let w1 = init_seek lib ctx w;
                  w2 = w1\<lparr>vars := (vars w1)
                         \<lparr>dv_channels := (if channels ctx = 1 then 1 else 2),
                          resample := (sample_rate ctx \<noteq> sint (samplerate (xl w1)))\<rparr>\<rparr>
              in if resample (vars w2)
                 then init_resampler have_swresample lib ctx w2
                 else Inr w2)))"

subsection \<open>Registration\<close>

definition zeroed_vars :: avcodecdecode_vars where
  "zeroed_vars = \<lparr>dv_codec = False, pkt_data = False, c = None, ic = None, resample = False,
                   stream = 0, dv_frame = None, floatsamples = None, dv_drop = FltOfInt 0,
                   current_chapter = None, swr = False, dv_channels = 0\<rparr>"

text \<open>
  \<open>self->stream\<close> is unsigned, so the result of \<open>av_find_best_stream\<close> is converted
  when it is stored and the test \<open>(self->stream = ...) < 0\<close> compares an unsigned value
  with zero. The two \<open>request_\<close> fields set without \<open>HAVE_SWRESAMPLE\<close> are hints to
  the decoder and not part of the state.
\<close>

text \<open>Lines 445 to 454: the chapter tags of the file, when it can be opened.\<close>

definition read_tags :: "(nat \<Rightarrow> lib_outcome) \<Rightarrow> dworld \<Rightarrow> dworld" where
  "read_tags lib w =
     (let (o1, w1) = next_outcome lib w \<comment> \<open>\<open>fopen\<close>\<close>
      in if ret_ok o1 then
           (let (o2, w2) = next_outcome lib w1 \<comment> \<open>\<open>mp3_tag_chapter_scan\<close>\<close>
            in case ret_chapter o2 of
                 None \<Rightarrow> w2
               | Some chapter \<Rightarrow>
                   w2\<lparr>vars := (vars w2)\<lparr>current_chapter := Some chapter\<rparr>,
                      calls := calls w2 @ [SetDynamicMetadata chapter 70]\<rparr>)
         else w1)"

definition avcodecdecode_reg ::
  "bool \<Rightarrow> (nat \<Rightarrow> lib_outcome) \<Rightarrow> dworld \<Rightarrow> fault + (int \<times> dworld)" where
  "avcodecdecode_reg have_swresample lib w =
     (let (o1, w1) = next_outcome lib w \<comment> \<open>\<open>calloc\<close>\<close>
      in if \<not> ret_ok o1 then Inr (REJECTED, w1\<lparr>xl := (xl w1)\<lparr>dec_data := False\<rparr>\<rparr>)
         else
           (let w2 = acquire ResDecoderVars
                       (w1\<lparr>xl := (xl w1)\<lparr>dec_data := True\<rparr>, vars := zeroed_vars\<rparr>);
                (o4, w5) = next_outcome lib (read_tags lib w2)
                  \<comment> \<open>\<open>avformat_open_input\<close>\<close>
            in if ret_int o4 < 0 then Inr (REJECTED, free_self w5)
               else
                 (let w6 = acquire ResInput (w5\<lparr>vars := (vars w5)\<lparr>ic := Some (ret_streams o4)\<rparr>\<rparr>);
                      (o5, w7) = next_outcome lib w6 \<comment> \<open>\<open>avformat_find_stream_info\<close>\<close>
                  in if ret_int o5 < 0 then Inr (REJECTED, free_self (avformat_close_input w7))
                     else
                       (case mutex_lock w7 of
                          Inl e \<Rightarrow> Inl e
                        | Inr w8 \<Rightarrow>
                            (let (o6, w9) = next_outcome lib w8; \<comment> \<open>\<open>av_find_best_stream\<close>\<close>
                                 w10 = w9\<lparr>vars := (vars w9)\<lparr>stream := word_of_int (ret_int o6),
                                                            dv_codec := (0 \<le> ret_int o6)\<rparr>\<rparr>
                             in if stream (vars w10) < 0
                                then Inr (REJECTED, free_self (avformat_close_input w10))
                                else
                                  (let w11 = mutex_unlock w10
                                   in case ic (vars w11) of
                                        None \<Rightarrow> Inl NullDeref
                                      | Some streams \<Rightarrow>
                                          if \<not> unat (stream (vars w11)) < length streams
                                          then Inl OutOfBounds
                                          else
                                            (let w12 = w11\<lparr>vars := (vars w11)
                                                         \<lparr>c := Some (streams ! unat (stream (vars w11)))\<rparr>\<rparr>
                                             in case mutex_lock w12 of
                                                  Inl e \<Rightarrow> Inl e
                                                | Inr w13 \<Rightarrow>
                                                    (let (o7, w14) = next_outcome lib w13;
                                                           \<comment> \<open>\<open>avcodec_open2\<close>\<close>
                                                         w15 = log_event AvcodecOpen2 w14
                                                     in if ret_int o7 < 0
                                                        then Inr (REJECTED,
                                                                  free_self (avformat_close_input
                                                                    (mutex_unlock w15)))
                                                        else
                                                          (let w16 = mutex_unlock
                                                                       (acquire ResOpenCodec w15)
                                                           in Inr (ACCEPTED,
                                                                   w16\<lparr>xl := (xl w16)
                                                                     \<lparr>dec_init := Some CB_avcodecdecode_init,
                                                                      dec_play := Some CB_avcodecdecode_play,
                                                                      dec_eject := Some CB_avcodecdecode_eject\<rparr>\<rparr>))))))))))"

subsection \<open>Playing: sample conversion and delivery\<close>

text \<open>
  \<open>frame->data[0]\<close> and \<open>frame->data[1]\<close> are byte pointers that the conversion
  switch casts to the element type of the sample format; the record gives the planes as
  read at each of the four element types.
\<close>

record frame_planes =
  as_flt :: "flt list list"
  as_dbl :: "dbl list list"
  as_s16 :: "16 word list list"
  as_s32 :: "32 word list list"

definition plane :: "'a list list \<Rightarrow> nat \<Rightarrow> 'a list" where
  "plane ps k = (if k < length ps then ps ! k else [])"

text \<open>C's integer division, which truncates towards zero.\<close>

definition c_div :: "int \<Rightarrow> int \<Rightarrow> int" where
  "c_div a b = sgn a * sgn b * (\<bar>a\<bar> div \<bar>b\<bar>)"

text \<open>
  The loop of the four planar cases,
  \<open>while (d < endp) { *d++ = conv(*l++); if (channels == 2) *d++ = conv(*r++); }\<close>,
  with \<open>d\<close>, \<open>l\<close> and \<open>r\<close> as element offsets into \<open>floatsamples\<close> and the two
  planes. \<open>endp\<close> is an offset in bytes: the source computes it as
  \<open>self->floatsamples + (channels * frames)\<close> on the \<open>uint8_t *\<close> field and stores it
  in a \<open>float *\<close>, while \<open>d\<close> advances by one float, four bytes, at a time.
\<close>

function plane_loop ::
  "('a \<Rightarrow> flt) \<Rightarrow> int \<Rightarrow> 'a list \<Rightarrow> 'a list \<Rightarrow> nat \<Rightarrow> int \<Rightarrow> nat \<Rightarrow> nat \<Rightarrow> flt list
     \<Rightarrow> fault + flt list" where
  "plane_loop conv chans l r d endp li ri out =
     (if 4 * int d < endp then
        (if length out \<le> d \<or> length l \<le> li then Inl OutOfBounds
         else
           (let out1 = out[d := conv (l ! li)]
            in if chans = 2 then
                 (if length out \<le> Suc d \<or> length r \<le> ri then Inl OutOfBounds
                  else plane_loop conv chans l r (Suc (Suc d)) endp (Suc li) (Suc ri)
                         (out1[Suc d := conv (r ! ri)]))
               else plane_loop conv chans l r (Suc d) endp (Suc li) ri out1))
      else Inr out)"
  by pat_completeness auto
termination
  by (relation "measure (\<lambda>(conv, chans, l, r, d, endp, li, ri, out). nat (endp - 4 * int d))")
     auto

text \<open>\<open>memcpy(self->floatsamples, self->frame->data[0], buffer_size)\<close>, in whole floats.\<close>

definition memcpy_floats :: "flt list \<Rightarrow> flt list \<Rightarrow> int \<Rightarrow> fault + flt list" where
  "memcpy_floats out src buffer_size =
     (let n = nat (buffer_size div 4)
      in if buffer_size < 0 \<or> length src < n \<or> length out < n then Inl OutOfBounds
         else Inr (take n src @ drop n out))"

text \<open>
  The switch on \<open>self->c->sample_fmt\<close>, lines 282 to 392, compiled without
  \<open>HAVE_SWRESAMPLE\<close>. The result is \<open>frames\<close> and the new contents of
  \<open>floatsamples\<close>, or \<open>None\<close> where the switch sets \<open>PM_EJECTING\<close> and returns.
  \<open>endp\<close> is \<open>channels * frames\<close> bytes past the start of the buffer.
  \<open>xlplayer_make_audio_to_float\<close> is not among the sources and is a parameter: it
  takes the buffer, the frame's data, \<open>frames\<close>, the sample width and \<open>channels\<close>.
\<close>

definition play_convert ::
  "(flt list \<Rightarrow> frame_planes \<Rightarrow> int \<Rightarrow> int \<Rightarrow> int \<Rightarrow> flt list) \<Rightarrow> sample_fmt \<Rightarrow> int \<Rightarrow> int
     \<Rightarrow> frame_planes \<Rightarrow> flt list \<Rightarrow> fault + (int \<times> flt list) option" where
  "play_convert xlplayer_make_audio_to_float fmt chans buffer_size fd out =
     (if fmt = AV_SAMPLE_FMT_NONE \<or> fmt = AV_SAMPLE_FMT_U8 \<or> fmt = AV_SAMPLE_FMT_U8P
      then Inr None
      else if chans = 0 then Inl DivideByZero
      else
        (let frames = (if fmt = AV_SAMPLE_FMT_DBL \<or> fmt = AV_SAMPLE_FMT_DBLP
                       then c_div (drop_bit 3 buffer_size) chans
                       else if fmt = AV_SAMPLE_FMT_S16 \<or> fmt = AV_SAMPLE_FMT_S16P
                       then c_div (drop_bit 1 buffer_size) chans
                       else c_div (drop_bit 2 buffer_size) chans);
             endp = chans * frames;
             res =
               (case fmt of
                  AV_SAMPLE_FMT_FLT \<Rightarrow> memcpy_floats out (plane (as_flt fd) 0) buffer_size
                | AV_SAMPLE_FMT_FLTP \<Rightarrow>
                    plane_loop (\<lambda>x. x) chans (plane (as_flt fd) 0)
                      (if chans = 2 then plane (as_flt fd) 1 else []) 0 endp 0 0 out
                | AV_SAMPLE_FMT_DBL \<Rightarrow>
                    plane_loop FltOfDbl 1 (plane (as_dbl fd) 0) [] 0 endp 0 0 out
                | AV_SAMPLE_FMT_DBLP \<Rightarrow>
                    plane_loop FltOfDbl chans (plane (as_dbl fd) 0)
                      (if chans = 2 then plane (as_dbl fd) 1 else []) 0 endp 0 0 out
                | AV_SAMPLE_FMT_S16 \<Rightarrow>
                    Inr (xlplayer_make_audio_to_float out fd frames 16 chans)
                | AV_SAMPLE_FMT_S16P \<Rightarrow>
                    plane_loop (\<lambda>x. FltDiv (FltOfInt (sint x)) (FltOfInt 32768)) chans
                      (plane (as_s16 fd) 0)
                      (if chans = 2 then plane (as_s16 fd) 1 else []) 0 endp 0 0 out
                | AV_SAMPLE_FMT_S32 \<Rightarrow>
                    Inr (xlplayer_make_audio_to_float out fd frames 32 chans)
                | AV_SAMPLE_FMT_S32P \<Rightarrow>
                    plane_loop (\<lambda>x. FltDiv (FltOfInt (sint x)) (FltOfInt 1073741824)) chans
                      (plane (as_s32 fd) 0)
                      (if chans = 2 then plane (as_s32 fd) 1 else []) 0 endp 0 0 out
                | _ \<Rightarrow> Inr out)
         in case res of
              Inl e \<Rightarrow> Inl e
            | Inr out1 \<Rightarrow> Inr (Some (frames, out1))))"

text \<open>
  Lines 396 to 409: the converted frame goes through the resampler or straight to
  \<open>xlplayer_demux_channel_data\<close>. \<open>src_process\<close> answers its result in \<open>ret_int\<close>
  and \<open>output_frames_gen\<close> in \<open>ret_frame_size\<close>.
\<close>

definition play_deliver :: "(nat \<Rightarrow> lib_outcome) \<Rightarrow> dworld \<Rightarrow> fault + dworld" where
  "play_deliver lib w =
     (case dv_frame (vars w) of
        None \<Rightarrow> Inl NullDeref
      | Some fr \<Rightarrow>
          if resample (vars w) then
            (let w1 = w\<lparr>xl := (xl w)\<lparr>src_data := (src_data (xl w))
                          \<lparr>input_frames := nb_samples fr, data_in := True\<rparr>\<rparr>\<rparr>;
                 (o1, w2) = next_outcome lib w1; \<comment> \<open>\<open>src_process\<close>\<close>
                 w3 = w2\<lparr>xl := (xl w2)\<lparr>src_data := (src_data (xl w2))
                           \<lparr>output_frames_gen := ret_frame_size o1\<rparr>\<rparr>,
                         calls := calls w2 @ [SrcProcess]\<rparr>
             in if ret_int o1 \<noteq> 0
                then Inr (w3\<lparr>xl := (xl w3)\<lparr>playmode := PM_EJECTING\<rparr>\<rparr>)
                else Inr (w3\<lparr>calls := calls w3 @
                            [DemuxChannelData BufDataOut (output_frames_gen (src_data (xl w3)))
                               (dv_channels (vars w3))]\<rparr>))
          else Inr (w\<lparr>calls := calls w @
                      [DemuxChannelData BufFloatSamples (nb_samples fr)
                         (dv_channels (vars w))]\<rparr>))"

section \<open>The mutex discipline\<close>

text \<open>
  A trace is guarded when every \<open>avcodec_open2\<close> and \<open>avcodec_close\<close> in it happens
  while the thread holds the mutex; the first argument says whether it holds it at
  the start.
\<close>

fun guarded :: "bool \<Rightarrow> event list \<Rightarrow> bool" where
  "guarded h [] = True"
| "guarded h (MutexLock # es) = guarded True es"
| "guarded h (MutexUnlock # es) = guarded False es"
| "guarded h (AvcodecOpen2 # es) = (h \<and> guarded h es)"
| "guarded h (AvcodecClose # es) = (h \<and> guarded h es)"

section \<open>Notions used in the statements\<close>

text \<open>The position of a state in the progression STARTING, RUNNING, STOPPING, STOPPED.\<close>

definition stage :: "encoder_state \<Rightarrow> nat" where
  "stage s = (case s of ES_STARTING \<Rightarrow> 0 | ES_RUNNING \<Rightarrow> 1 | ES_STOPPING \<Rightarrow> 2 | ES_STOPPED \<Rightarrow> 3)"

text \<open>The fields of the encoder that only \<open>live_webm_encoder_main\<close> itself assigns.\<close>

definition ctl :: "world \<Rightarrow> encoder_state \<times> bool \<times> bool \<times> bool" where
  "ctl w = (encoder_state (enc w), run_request_f (enc w), run_encoder (enc w),
            encoder_private (enc w))"

definition state_after :: "fault + world \<Rightarrow> encoder_state option" where
  "state_after r = (case r of Inl e \<Rightarrow> None | Inr w \<Rightarrow> Some (encoder_state (enc w)))"

text \<open>
  In \<open>avcodecdecode_init\<close>, the allocation of the resampler's output buffer and
  \<open>src_new\<close> both succeed; they are the first two library calls after the seek.
\<close>

definition init_calls_ok :: "(nat \<Rightarrow> lib_outcome) \<Rightarrow> dworld \<Rightarrow> bool" where
  "init_calls_ok lib w =
     (let t = tick w + (if seek_s (xl w) \<noteq> 0 then 1 else 0)
      in ret_ok (lib t) \<and> ret_int (lib (Suc t)) = 0)"

definition resample_after :: "fault + dworld \<Rightarrow> bool option" where
  "resample_after r = (case r of Inl e \<Rightarrow> None | Inr w \<Rightarrow> Some (resample (vars w)))"

text \<open>The number of allocated decoder state objects (\<open>struct avcodecdecode_vars\<close>).\<close>

definition decoder_states :: "dworld \<Rightarrow> nat" where
  "decoder_states w = count_list (live w) ResDecoderVars"

text \<open>What is left after \<open>avcodecdecode_init\<close>: the player's mode, whether it has a
  resampler state, and the objects still allocated.\<close>

definition init_outcome :: "fault + dworld \<Rightarrow> (playmode \<times> bool \<times> resource list) option" where
  "init_outcome r =
     (case r of Inl e \<Rightarrow> None
      | Inr w \<Rightarrow> Some (playmode (xl w), src_state (xl w), live w))"

section \<open>Concrete inputs\<close>

definition example_flags :: packet_flag_values where
  "example_flags = \<lparr>PF_INITIAL = 1, PF_FINAL = 2, PF_HEADER = 4, PF_SUPPRESS = 8, PF_WEBM = 16\<rparr>"

definition example_codec :: AVCodec where
  "example_codec = \<lparr>codec_type = AVMEDIA_TYPE_AUDIO, sample_fmts = Some [AV_SAMPLE_FMT_FLTP],
                     capabilities = 0\<rparr>"

definition example_context :: AVCodecContext where
  "example_context = \<lparr>codec_id = CODEC_ID_OTHER, sample_fmt = AV_SAMPLE_FMT_S16P, bit_rate = 0,
                       sample_rate = 44100, channels = 2, channel_layout = 3, flags = 0,
                       frame_size = 0, codec = None\<rparr>"

definition example_stream :: AVStream where
  "example_stream = \<lparr>stream_id = 7, time_base = (0, 1), stream_codec = example_context\<rparr>"

text \<open>Every call succeeds; each muxer call writes one empty buffer.\<close>

definition lib_ok :: "nat \<Rightarrow> lib_outcome" where
  "lib_ok n = \<lparr>ret_int = 0, ret_ok = True, ret_codec = Some example_codec,
               ret_stream = Some example_stream, ret_oformat = Some \<lparr>oformat_flags = 0\<rparr>,
               ret_frame_size = 960, got_packet = True, callbacks = [(Some [], 0)],
               ret_chapter = None, ret_streams = [example_context]\<rparr>"

text \<open>
  In \<open>setup\<close> the library calls are, in order: \<open>avformat_alloc_context\<close> (0),
  \<open>av_guess_format\<close> (1), \<open>av_malloc\<close> (2), \<open>avio_alloc_context\<close> (3),
  \<open>avcodec_find_encoder\<close> (4), \<open>avformat_new_stream\<close> (5), \<open>avcodec_open2\<close> (6),
  \<open>av_frame_alloc\<close> and \<open>av_frame_get_buffer\<close> twice (7 to 10), \<open>swr_alloc\<close> (11),
  \<open>swr_init\<close> (12), \<open>avformat_write_header\<close> (13).
\<close>

definition lib_avio_fails :: "nat \<Rightarrow> lib_outcome" where
  "lib_avio_fails n = (lib_ok n)\<lparr>ret_ok := (n \<noteq> 3)\<rparr>"

definition lib_swr_fails :: "nat \<Rightarrow> lib_outcome" where
  "lib_swr_fails n = (lib_ok n)\<lparr>ret_ok := (n \<noteq> 11)\<rparr>"

definition fresh_state :: WebMState where
  "fresh_state = \<lparr>st = None, next_pts = 0, samples_count = 0, frame = None, tmp_frame = None,
                   swr_ctx = False, oc = None, avio_ctx = None, packet_flags = 0\<rparr>"

definition open_state :: WebMState where
  "open_state = fresh_state
     \<lparr>st := Some example_stream,
      oc := Some \<lparr>oformat = Some \<lparr>oformat_flags = 0\<rparr>, pb = True, metadata_title = None\<rparr>,
      avio_ctx := Some \<lparr>buffer = True\<rparr>\<rparr>"

definition example_encoder :: encoder where
  "example_encoder = \<lparr>encoder_state = ES_STARTING, run_request_f = True, flush = False,
                       new_metadata = False, use_metadata = False,
                       data_format_codec = ENCODER_CODEC_OPUS, bitrate = 128000,
                       target_samplerate = 48000, n_channels = 2, oggserial = 0,
                       timestamp = DblOfInt 0, custom_meta = [], run_encoder = True,
                       encoder_private = True\<rparr>"

definition fresh_world :: world where
  "fresh_world = \<lparr>live = [ResWebMState, ResWebMState], trace = [], held = False, tick = 0,
                   enc = example_encoder, ws_self = fresh_state, ws_meta = fresh_state,
                   sent = []\<rparr>"

text \<open>Both streams set up; the encoder is stopping, with and without a run request.\<close>

definition stopping_world :: world where
  "stopping_world = \<lparr>live = [ResAvioContext, ResAvioBuffer, ResFormatContext,
                              ResAvioContext, ResAvioBuffer, ResFormatContext,
                              ResWebMState, ResWebMState],
                      trace = [], held = False, tick = 0,
                      enc = example_encoder\<lparr>encoder_state := ES_STOPPING\<rparr>,
                      ws_self = open_state, ws_meta = open_state, sent = []\<rparr>"

definition halting_world :: world where
  "halting_world = stopping_world\<lparr>enc := (enc stopping_world)\<lparr>run_request_f := False\<rparr>\<rparr>"

text \<open>No call fails and the muxer writes nothing.\<close>

definition lib_quiet :: "nat \<Rightarrow> lib_outcome" where
  "lib_quiet n = (lib_ok n)\<lparr>callbacks := []\<rparr>"

text \<open>The stream \<open>self\<close> with only \<open>PF_INITIAL\<close> set, and with only \<open>PF_SUPPRESS\<close>.\<close>

definition initial_world :: world where
  "initial_world = stopping_world\<lparr>ws_self := open_state\<lparr>packet_flags := 1\<rparr>\<rparr>"

definition suppressed_world :: world where
  "suppressed_world = stopping_world\<lparr>ws_self := open_state\<lparr>packet_flags := 8\<rparr>\<rparr>"

definition example_player :: xlplayer where
  "example_player = \<lparr>dec_data = True, dec_init = None, dec_play = None, dec_eject = None,
                      pathname = ''a.wma'', play_progress_ms = 0, seek_s = 0,
                      samplerate = 48000, rsqual = 0, src_state = False,
                      src_data = \<lparr>src_ratio = DblOfInt 0, end_of_input = 0,
                                  output_frames = SizeOfDbl (DblOfInt 0), data_out = False,
                                  input_frames = 0, data_in = False, output_frames_gen = 0\<rparr>,
                      playmode = PM_OTHER, command = CMD_OTHER\<rparr>"

text \<open>A registered decoder for a 44100 Hz stream in a 48000 Hz player.\<close>

definition decoder_world :: dworld where
  "decoder_world = \<lparr>live = [ResOpenCodec, ResInput, ResDecoderVars], trace = [], held = False,
                     tick = 0, xl = example_player,
                     vars = zeroed_vars\<lparr>c := Some example_context, ic := Some [example_context]\<rparr>,
                     calls = []\<rparr>"

text \<open>
  A player rate of \<open>4294967295\<close> and a stream whose context says \<open>-1\<close>: different
  rates that are equal once the player's is cast to \<open>int\<close>.
\<close>

definition wrapped_world :: dworld where
  "wrapped_world = decoder_world
     \<lparr>xl := example_player\<lparr>samplerate := - 1\<rparr>,
      vars := zeroed_vars\<lparr>c := Some (example_context\<lparr>sample_rate := - 1\<rparr>),
                         ic := Some [example_context\<lparr>sample_rate := - 1\<rparr>]\<rparr>\<rparr>"

definition unregistered_world :: dworld where
  "unregistered_world = \<lparr>live = [], trace = [], held = False, tick = 0,
                          xl = example_player\<lparr>dec_data := False\<rparr>, vars = zeroed_vars,
                          calls = []\<rparr>"

definition lib_malloc_fails :: "nat \<Rightarrow> lib_outcome" where
  "lib_malloc_fails n = (lib_ok n)\<lparr>ret_ok := False\<rparr>"

text \<open>
  In \<open>avcodecdecode_reg\<close> the calls are \<open>calloc\<close> (0), \<open>fopen\<close> (1),
  \<open>mp3_tag_chapter_scan\<close> (2), \<open>avformat_open_input\<close> (3),
  \<open>avformat_find_stream_info\<close> (4), \<open>av_find_best_stream\<close> (5) and
  \<open>avcodec_open2\<close> (6). Here the input has one stream and no audio stream:
  \<open>av_find_best_stream\<close> answers \<open>AVERROR_STREAM_NOT_FOUND\<close>.
\<close>

definition AVERROR_STREAM_NOT_FOUND :: int where
  "AVERROR_STREAM_NOT_FOUND = - 1381258232"

definition lib_no_audio :: "nat \<Rightarrow> lib_outcome" where
  "lib_no_audio n = (lib_ok n)\<lparr>ret_int := (if n = 5 then AVERROR_STREAM_NOT_FOUND else 0)\<rparr>"

definition example_planes :: frame_planes where
  "example_planes = \<lparr>as_flt = [], as_dbl = [],
                      as_s16 = [[16384, - 32768], [0, 8192]], as_s32 = []\<rparr>"

section \<open>Packet flags and suppressed packets\<close>

lemma ws_set_ws_same [simp]: "ws p (set_ws p s w) = s"
  by (cases p) (simp_all add: ws_def set_ws_def)

lemma ws_set_ws_other [simp]: "p \<noteq> q \<Longrightarrow> ws p (set_ws q s w) = ws p w"
  by (cases p; cases q) (simp_all add: ws_def set_ws_def)

lemma set_ws_fields [simp]:
  "enc (set_ws p s w) = enc w" "sent (set_ws p s w) = sent w" "live (set_ws p s w) = live w"
  "trace (set_ws p s w) = trace w" "held (set_ws p s w) = held w" "tick (set_ws p s w) = tick w"
  by (cases p; simp add: set_ws_def)+

lemma ws_field_upd [simp]:
  "ws p (enc_update f w) = ws p w" "ws p (sent_update g w) = ws p w"
  "ws p (live_update h w) = ws p w" "ws p (trace_update i w) = ws p w"
  "ws p (held_update j w) = ws p w" "ws p (tick_update k w) = ws p w"
  by (cases p; simp add: ws_def)+

lemma write_packet_flags:
  "packet_flags (ws self (snd (write_packet pf self b n w))) =
     packet_flags (ws self w) AND NOT (PF_INITIAL pf)"
  by (simp add: write_packet_def Let_def)

lemma run_callbacks_flags:
  "packet_flags (ws self (run_callbacks pf self bs w)) =
     (if bs = [] then packet_flags (ws self w)
      else packet_flags (ws self w) AND NOT (PF_INITIAL pf))"
  by (induction bs arbitrary: w) (simp_all add: write_packet_flags)

lemma muxer_call_flags:
  "packet_flags (ws self (snd (muxer_call pf lib self w))) =
     (if callbacks (lib (tick w)) = [] then packet_flags (ws self w)
      else packet_flags (ws self w) AND NOT (PF_INITIAL pf))"
  by (simp add: muxer_call_def next_outcome_def run_callbacks_flags)

lemma or_packet_flags_simps [simp]:
  "packet_flags (ws self (or_packet_flags self m w)) = packet_flags (ws self w) OR m"
  "enc (or_packet_flags self m w) = enc w" "sent (or_packet_flags self m w) = sent w"
  "tick (or_packet_flags self m w) = tick w"
  by (simp_all add: or_packet_flags_def)

lemma clear_packet_flags_simps [simp]:
  "packet_flags (ws self (clear_packet_flags self m w)) = packet_flags (ws self w) AND NOT m"
  "enc (clear_packet_flags self m w) = enc w" "sent (clear_packet_flags self m w) = sent w"
  "tick (clear_packet_flags self m w) = tick w"
  by (simp_all add: clear_packet_flags_def)

lemma write_header_flags:
  "packet_flags (ws self (snd (write_header pf lib self e w))) =
     (if callbacks (lib (tick w)) = []
      then (packet_flags (ws self w) OR PF_INITIAL pf) AND NOT (PF_HEADER pf OR e)
      else packet_flags (ws self w) AND NOT (PF_INITIAL pf) AND NOT (PF_HEADER pf OR e))"
  apply (simp add: write_header_def Let_def split_beta muxer_call_flags)
  apply (intro conjI impI; rule bit_eqI; auto simp: bit_simps)
  done

lemma write_trailer_flags:
  "packet_flags (ws self (snd (write_trailer pf lib self e w))) =
     packet_flags (ws self w) AND NOT (PF_INITIAL pf) AND NOT (PF_FINAL pf OR e)"
  apply (simp add: write_trailer_def Let_def split_beta muxer_call_flags write_packet_flags)
  apply (intro conjI impI; rule bit_eqI; auto simp: bit_simps)
  done

text \<open>
  C9, as amended. \<open>write_header\<close> returns with \<open>PF_HEADER\<close> and the caller's
  \<open>extra_flags\<close> cleared. \<open>PF_INITIAL\<close>, which \<open>write_header\<close> sets, is still set
  on return (where it is not among the bits just cleared) only if the muxer made no call
  of \<open>write_packet\<close> during it: every call of \<open>write_packet\<close> clears \<open>PF_INITIAL\<close>,
  whether or not the packet is suppressed, and changes no other bit. \<open>write_trailer\<close>
  returns with \<open>PF_FINAL\<close>, the caller's \<open>extra_flags\<close> and \<open>PF_INITIAL\<close> cleared,
  since it calls \<open>write_packet\<close> itself. Neither function changes any other bit of
  \<open>packet_flags\<close>.
\<close>

theorem header_trailer_packet_flags:
  "packet_flags (ws self (snd (write_header pf lib self e w))) AND (PF_HEADER pf OR e) = 0
   \<and> packet_flags (ws self (snd (write_header pf lib self e w)))
         AND NOT (PF_HEADER pf OR PF_INITIAL pf OR e)
       = packet_flags (ws self w) AND NOT (PF_HEADER pf OR PF_INITIAL pf OR e)
   \<and> packet_flags (ws self (snd (write_header pf lib self e w))) AND PF_INITIAL pf
       = (if callbacks (lib (tick w)) = [] then PF_INITIAL pf AND NOT (PF_HEADER pf OR e) else 0)
   \<and> packet_flags (ws self (snd (write_packet pf self buf n w)))
       = packet_flags (ws self w) AND NOT (PF_INITIAL pf)
   \<and> packet_flags (ws self (snd (write_trailer pf lib self e w))) AND (PF_FINAL pf OR e) = 0
   \<and> packet_flags (ws self (snd (write_trailer pf lib self e w)))
         AND NOT (PF_FINAL pf OR PF_INITIAL pf OR e)
       = packet_flags (ws self w) AND NOT (PF_FINAL pf OR PF_INITIAL pf OR e)
   \<and> packet_flags (ws self (snd (write_trailer pf lib self e w))) AND PF_INITIAL pf = 0"
proof (intro conjI)
  show "packet_flags (ws self (snd (write_header pf lib self e w))) AND (PF_HEADER pf OR e) = 0"
    unfolding write_header_flags
    by (cases "callbacks (lib (tick w)) = []"; simp; rule bit_eqI; auto simp: bit_simps)
  show "packet_flags (ws self (snd (write_header pf lib self e w)))
          AND NOT (PF_HEADER pf OR PF_INITIAL pf OR e)
        = packet_flags (ws self w) AND NOT (PF_HEADER pf OR PF_INITIAL pf OR e)"
    unfolding write_header_flags
    by (cases "callbacks (lib (tick w)) = []"; simp; rule bit_eqI; auto simp: bit_simps)
  show "packet_flags (ws self (snd (write_header pf lib self e w))) AND PF_INITIAL pf
        = (if callbacks (lib (tick w)) = [] then PF_INITIAL pf AND NOT (PF_HEADER pf OR e) else 0)"
    unfolding write_header_flags
    by (cases "callbacks (lib (tick w)) = []"; simp; rule bit_eqI; auto simp: bit_simps)
  show "packet_flags (ws self (snd (write_packet pf self buf n w)))
        = packet_flags (ws self w) AND NOT (PF_INITIAL pf)"
    by (rule write_packet_flags)
  show "packet_flags (ws self (snd (write_trailer pf lib self e w))) AND (PF_FINAL pf OR e) = 0"
    unfolding write_trailer_flags by (rule bit_eqI) (auto simp: bit_simps)
  show "packet_flags (ws self (snd (write_trailer pf lib self e w)))
          AND NOT (PF_FINAL pf OR PF_INITIAL pf OR e)
        = packet_flags (ws self w) AND NOT (PF_FINAL pf OR PF_INITIAL pf OR e)"
    unfolding write_trailer_flags by (rule bit_eqI) (auto simp: bit_simps)
  show "packet_flags (ws self (snd (write_trailer pf lib self e w))) AND PF_INITIAL pf = 0"
    unfolding write_trailer_flags by (rule bit_eqI) (auto simp: bit_simps)
qed

lemma run_trailer_initial:
  "packet_flags (ws PSelf (snd (write_trailer example_flags lib_quiet PSelf 0 initial_world))) = 0"
  by code_simp

lemma run_header_suppressed:
  "packet_flags (ws PSelf (snd (write_header example_flags lib_ok PSelf
                                  (PF_SUPPRESS example_flags) stopping_world)))
     AND PF_INITIAL example_flags = 0"
  "sent (snd (write_header example_flags lib_ok PSelf (PF_SUPPRESS example_flags)
                stopping_world)) = []"
  by code_simp+

text \<open>
  The claim as stated fails twice. Entered with \<open>PF_INITIAL\<close> set and no
  \<open>extra_flags\<close>, \<open>write_trailer\<close> clears \<open>PF_INITIAL\<close>, a bit that is neither
  \<open>PF_FINAL\<close> nor among the \<open>extra_flags\<close>, although the muxer writes nothing. And
  after \<open>write_header\<close> with \<open>PF_SUPPRESS\<close>, during which the muxer writes one
  buffer, \<open>PF_INITIAL\<close> is cleared although no packet was emitted.
\<close>

theorem header_trailer_packet_flags_counterexample:
  "PF_INITIAL example_flags = 1
   \<and> packet_flags (ws PSelf initial_world) = 1
   \<and> PF_INITIAL example_flags AND (PF_FINAL example_flags OR 0) = 0
   \<and> packet_flags (ws PSelf (snd (write_trailer example_flags lib_quiet PSelf 0 initial_world)))
       = 0
   \<and> packet_flags (ws PSelf (snd (write_header example_flags lib_ok PSelf
                                    (PF_SUPPRESS example_flags) stopping_world)))
         AND PF_INITIAL example_flags = 0
   \<and> sent (snd (write_header example_flags lib_ok PSelf (PF_SUPPRESS example_flags)
                  stopping_world)) = []"
  using run_trailer_initial run_header_suppressed
  by (simp add: example_flags_def initial_world_def ws_def)

lemma and_not_disjoint:
  assumes "(s::32 word) AND i = 0"
  shows "(f AND NOT i) AND s = f AND s"
proof (rule bit_eqI)
  fix n
  have "bit (s AND i) n = bit (0::32 word) n"
    using assms by simp
  then have "\<not> (bit s n \<and> bit i n)"
    by (simp add: bit_and_iff)
  then show "bit ((f AND NOT i) AND s) n = bit (f AND s) n"
    by (auto simp: bit_simps dest: bit_imp_le_length)
qed

lemma or_keeps_bits: "(e::32 word) AND s \<noteq> 0 \<Longrightarrow> (f OR e) AND s \<noteq> 0"
  by (metis (no_types, opaque_lifting) bit.conj_disj_distrib2 or_eq_0_iff)

lemma or_keeps_bits_left: "(f::32 word) AND s \<noteq> 0 \<Longrightarrow> (f OR e) AND s \<noteq> 0"
  by (metis (no_types, opaque_lifting) bit.conj_disj_distrib2 or_eq_0_iff)

lemma write_packet_suppressed:
  "packet_flags (ws self w) AND PF_SUPPRESS pf \<noteq> 0 \<Longrightarrow>
     write_packet pf self b n w =
       (1, set_ws self ((ws self w)\<lparr>packet_flags :=
                          packet_flags (ws self w) AND NOT (PF_INITIAL pf)\<rparr>) w)"
  by (simp add: write_packet_def)

lemma run_callbacks_suppressed:
  "PF_SUPPRESS pf AND PF_INITIAL pf = 0 \<Longrightarrow>
   packet_flags (ws self w) AND PF_SUPPRESS pf \<noteq> 0 \<Longrightarrow>
     enc (run_callbacks pf self bs w) = enc w \<and> sent (run_callbacks pf self bs w) = sent w
     \<and> packet_flags (ws self (run_callbacks pf self bs w)) AND PF_SUPPRESS pf \<noteq> 0"
  by (induction bs arbitrary: w) (simp_all add: write_packet_suppressed and_not_disjoint)

lemma write_packet_oggserial:
  "oggserial (enc (snd (write_packet pf self b n w))) = oggserial (enc w)"
  by (simp add: write_packet_def Let_def)

lemma run_callbacks_oggserial:
  "oggserial (enc (run_callbacks pf self bs w)) = oggserial (enc w)"
  by (induction bs arbitrary: w) (simp_all add: write_packet_oggserial)

lemma write_header_oggserial:
  "oggserial (enc (snd (write_header pf lib self e w))) =
     oggserial (enc w) + (if e AND PF_SUPPRESS pf = 0 then 1 else 0)"
  by (simp add: write_header_def Let_def split_beta muxer_call_def next_outcome_def
        run_callbacks_oggserial)

lemma write_header_suppressed:
  assumes "PF_SUPPRESS pf AND PF_INITIAL pf = 0" "e AND PF_SUPPRESS pf \<noteq> 0"
  shows "enc (snd (write_header pf lib self e w)) = enc w
         \<and> sent (snd (write_header pf lib self e w)) = sent w"
proof -
  let ?w2 = "(or_packet_flags self (PF_HEADER pf OR PF_INITIAL pf OR e) w)\<lparr>tick := Suc (tick w)\<rparr>"
  have "(packet_flags (ws self w) OR (PF_HEADER pf OR PF_INITIAL pf OR e)) AND PF_SUPPRESS pf \<noteq> 0"
    using assms(2) by (metis or_keeps_bits or.assoc)
  then have "packet_flags (ws self ?w2) AND PF_SUPPRESS pf \<noteq> 0"
    by simp
  from run_callbacks_suppressed [OF assms(1) this]
  show ?thesis
    using assms(2) by (simp add: write_header_def Let_def split_beta muxer_call_def next_outcome_def)
qed

lemma write_trailer_suppressed:
  assumes "PF_SUPPRESS pf AND PF_INITIAL pf = 0" "e AND PF_SUPPRESS pf \<noteq> 0"
  shows "enc (snd (write_trailer pf lib self e w)) = enc w
         \<and> sent (snd (write_trailer pf lib self e w)) = sent w"
proof -
  let ?w1 = "(or_packet_flags self e w)\<lparr>tick := Suc (tick w)\<rparr>"
  let ?w2 = "run_callbacks pf self (callbacks (lib (tick w))) ?w1"
  have "packet_flags (ws self ?w1) AND PF_SUPPRESS pf \<noteq> 0"
    using assms(2) by (simp add: or_keeps_bits)
  from run_callbacks_suppressed [OF assms(1) this]
  have cb: "enc ?w2 = enc w" "sent ?w2 = sent w"
      "packet_flags (ws self ?w2) AND PF_SUPPRESS pf \<noteq> 0"
    by simp_all
  have "packet_flags (ws self (or_packet_flags self (PF_FINAL pf) ?w2)) AND PF_SUPPRESS pf \<noteq> 0"
    using cb(3) by (simp add: or_keeps_bits_left)
  from write_packet_suppressed [OF this]
  show ?thesis
    using cb(1,2)
    by (simp add: write_trailer_def Let_def split_beta muxer_call_def next_outcome_def)
qed

text \<open>
  C10. With \<open>PF_SUPPRESS\<close> set in \<open>packet_flags\<close>, \<open>write_packet\<close> returns 1, passes no
  packet to \<open>encoder_write_packet_all\<close> and leaves the encoder as it is. \<open>write_header\<close>
  adds one to \<open>encoder->oggserial\<close> when \<open>PF_SUPPRESS\<close> is not among its
  \<open>extra_flags\<close> and nothing otherwise. Where \<open>PF_SUPPRESS\<close> and \<open>PF_INITIAL\<close>
  share no bit, a header or trailer written with \<open>PF_SUPPRESS\<close> among the
  \<open>extra_flags\<close> sends no packet and leaves the encoder as it is, whatever the muxer
  writes during the call.
\<close>

theorem suppressed_stream_is_silent:
  "(packet_flags (ws self w) AND PF_SUPPRESS pf \<noteq> 0 \<longrightarrow>
      fst (write_packet pf self buf n w) = 1
      \<and> enc (snd (write_packet pf self buf n w)) = enc w
      \<and> sent (snd (write_packet pf self buf n w)) = sent w)
   \<and> oggserial (enc (snd (write_header pf lib self e w)))
       = oggserial (enc w) + (if e AND PF_SUPPRESS pf = 0 then 1 else 0)
   \<and> (PF_SUPPRESS pf AND PF_INITIAL pf = 0 \<and> e AND PF_SUPPRESS pf \<noteq> 0 \<longrightarrow>
        enc (snd (write_header pf lib self e w)) = enc w
        \<and> sent (snd (write_header pf lib self e w)) = sent w
        \<and> enc (snd (write_trailer pf lib self e w)) = enc w
        \<and> sent (snd (write_trailer pf lib self e w)) = sent w)"
proof (intro conjI impI)
  assume "packet_flags (ws self w) AND PF_SUPPRESS pf \<noteq> 0"
  from write_packet_suppressed [OF this, of buf n]
  show "fst (write_packet pf self buf n w) = 1"
    and "enc (snd (write_packet pf self buf n w)) = enc w"
    and "sent (snd (write_packet pf self buf n w)) = sent w"
    by simp_all
next
  show "oggserial (enc (snd (write_header pf lib self e w)))
        = oggserial (enc w) + (if e AND PF_SUPPRESS pf = 0 then 1 else 0)"
    by (rule write_header_oggserial)
next
  assume a: "PF_SUPPRESS pf AND PF_INITIAL pf = 0 \<and> e AND PF_SUPPRESS pf \<noteq> 0"
  then have d: "PF_SUPPRESS pf AND PF_INITIAL pf = 0" and s: "e AND PF_SUPPRESS pf \<noteq> 0"
    by simp_all
  from write_header_suppressed [OF d s, of lib self w]
  show "enc (snd (write_header pf lib self e w)) = enc w"
    and "sent (snd (write_header pf lib self e w)) = sent w"
    by simp_all
  from write_trailer_suppressed [OF d s, of lib self w]
  show "enc (snd (write_trailer pf lib self e w)) = enc w"
    and "sent (snd (write_trailer pf lib self e w)) = sent w"
    by simp_all
qed

theorem suppressed_stream_is_silent_witness:
  "packet_flags (ws PSelf suppressed_world) AND PF_SUPPRESS example_flags \<noteq> 0
   \<and> PF_SUPPRESS example_flags AND PF_INITIAL example_flags = 0
   \<and> fst (write_packet example_flags PSelf (Some []) 0 suppressed_world) = 1
   \<and> sent (snd (write_packet example_flags PSelf (Some []) 0 suppressed_world)) = []
   \<and> oggserial (enc (snd (write_header example_flags lib_ok PSelf 8 suppressed_world))) = 0
   \<and> oggserial (enc (snd (write_header example_flags lib_ok PSelf 0 suppressed_world))) = 1
   \<and> sent (snd (write_header example_flags lib_ok PSelf 8 suppressed_world)) = []
   \<and> sent (snd (write_trailer example_flags lib_ok PSelf 8 suppressed_world)) = []"
proof -
  have h1: "packet_flags (ws PSelf suppressed_world) AND PF_SUPPRESS example_flags \<noteq> 0"
    by (simp add: suppressed_world_def ws_def example_flags_def open_state_def fresh_state_def
          stopping_world_def)
  have h2: "PF_SUPPRESS example_flags AND PF_INITIAL example_flags = 0"
    by (simp add: example_flags_def)
  have h3: "(8::32 word) AND PF_SUPPRESS example_flags \<noteq> 0"
    by (simp add: example_flags_def)
  have h4: "(0::32 word) AND PF_SUPPRESS example_flags = 0"
    by simp
  have s0: "sent suppressed_world = []" "oggserial (enc suppressed_world) = 0"
    by (simp_all add: suppressed_world_def stopping_world_def example_encoder_def)
  from suppressed_stream_is_silent
         [of PSelf suppressed_world example_flags "Some []" 0 lib_ok 8]
       suppressed_stream_is_silent
         [of PSelf suppressed_world example_flags "Some []" 0 lib_ok 0]
       h1 h2 h3 h4 s0
  show ?thesis by simp
qed

section \<open>The encoder's life cycle\<close>

text \<open>
  Nothing that \<open>live_webm_encoder_main\<close> calls assigns \<open>encoder_state\<close>,
  \<open>run_request_f\<close>, \<open>run_encoder\<close> or \<open>encoder_private\<close>.
\<close>

lemma ctl_write_packet [simp]: "ctl (snd (write_packet pf self b n w)) = ctl w"
  by (simp add: write_packet_def Let_def ctl_def)

lemma ctl_run_callbacks [simp]: "ctl (run_callbacks pf self bs w) = ctl w"
  by (induction bs arbitrary: w) simp_all

lemma enc_sys_steps [simp]:
  "enc (acquire r w) = enc w" "enc (release r w) = enc w" "enc (log_event e w) = enc w"
  "enc (mutex_unlock w) = enc w" "enc (snd (next_outcome lib w)) = enc w"
  "enc (avcodec_close w) = enc w"
  by (simp_all add: acquire_def release_def log_event_def mutex_unlock_def next_outcome_def
        avcodec_close_def)

lemma enc_free_steps [simp]:
  "enc (free_frame self w) = enc w" "enc (free_tmp_frame self w) = enc w"
  "enc (swr_free self w) = enc w" "enc (avformat_free_context self w) = enc w"
  "enc (av_freep_avio_ctx self w) = enc w"
  by (simp_all add: free_frame_def free_tmp_frame_def swr_free_def avformat_free_context_def
        av_freep_avio_ctx_def Let_def)

lemma ctl_steps [simp]:
  "ctl (set_ws p s w) = ctl w" "ctl (tick_update k w) = ctl w"
  "ctl (acquire r w) = ctl w" "ctl (release r w) = ctl w" "ctl (log_event e w) = ctl w"
  "ctl (mutex_unlock w) = ctl w" "ctl (avcodec_close w) = ctl w"
  "ctl (free_frame self w) = ctl w" "ctl (free_tmp_frame self w) = ctl w"
  "ctl (swr_free self w) = ctl w" "ctl (avformat_free_context self w) = ctl w"
  "ctl (av_freep_avio_ctx self w) = ctl w"
  "ctl (or_packet_flags self m w) = ctl w" "ctl (clear_packet_flags self m w) = ctl w"
  by (simp_all add: ctl_def)

lemma ctl_muxer_call [simp]: "ctl (snd (muxer_call pf lib self w)) = ctl w"
  by (simp add: muxer_call_def next_outcome_def)

lemma ctl_write_trailer [simp]: "ctl (snd (write_trailer pf lib self e w)) = ctl w"
  by (simp add: write_trailer_def Let_def split_beta)

lemma ctl_write_header [simp]: "ctl (snd (write_header pf lib self e w)) = ctl w"
proof -
  have "ctl (w\<lparr>enc := (enc w)\<lparr>oggserial := oggserial (enc w) + 1\<rparr>\<rparr>) = ctl w"
    by (simp add: ctl_def)
  then show ?thesis
    by (simp add: write_header_def Let_def split_beta)
qed

lemma ctl_alloc_audio_frame [simp]: "ctl (snd (alloc_audio_frame lib f l r n w)) = ctl w"
  by (simp add: alloc_audio_frame_def next_outcome_def Let_def)

lemma ctl_mutex_lock: "mutex_lock w = Inr w' \<Longrightarrow> ctl w' = ctl w"
  by (auto simp: mutex_lock_def ctl_def log_event_def split: if_splits)

lemma ctl_add_stream: "add_stream lib self cid br sr ch w = Inr (r, w') \<Longrightarrow> ctl w' = ctl w"
  by (auto simp: add_stream_def next_outcome_def Let_def
           split: option.splits if_splits list.splits)

lemma ctl_open_stream: "open_stream lib self cdc w = Inr (r, w') \<Longrightarrow> ctl w' = ctl w"
  by (auto simp: open_stream_def next_outcome_def Let_def split_beta dest!: ctl_mutex_lock
           split: option.splits if_splits sum.splits)

lemma ctl_get_audio_frame: "get_audio_frame lib self w = Inr (r, w') \<Longrightarrow> ctl w' = ctl w"
  by (auto simp: get_audio_frame_def next_outcome_def Let_def split: option.splits if_splits)

lemma ctl_encode_and_write [simp]: "ctl (snd (encode_and_write pf lib self w)) = ctl w"
  by (simp add: encode_and_write_def next_outcome_def Let_def split_beta)

lemma ctl_encode_and_write_eq:
  "encode_and_write pf lib self w = (r, w') \<Longrightarrow> ctl w' = ctl w"
  using ctl_encode_and_write [of pf lib self w] by simp

lemma ctl_close_stream: "close_stream self w = Inr w' \<Longrightarrow> ctl w' = ctl w"
  by (auto simp: close_stream_def split: option.splits)

lemma ctl_av_freep_avio_buffer: "av_freep_avio_buffer self w = Inr w' \<Longrightarrow> ctl w' = ctl w"
  by (auto simp: av_freep_avio_buffer_def Let_def split: option.splits)

lemma ctl_teardown: "teardown self w = Inr w' \<Longrightarrow> ctl w' = ctl w"
  by (auto simp: teardown_def split: sum.splits dest!: ctl_close_stream ctl_av_freep_avio_buffer)

lemma ctl_fail1: "fail1 w = Inr (r, w') \<Longrightarrow> ctl w' = ctl w"
  by (simp add: fail1_def)

lemma ctl_fail2: "fail2 self w = Inr (r, w') \<Longrightarrow> ctl w' = ctl w"
  by (auto simp: fail2_def dest!: ctl_fail1)

lemma ctl_fail3: "fail3 self w = Inr (r, w') \<Longrightarrow> ctl w' = ctl w"
  by (auto simp: fail3_def split: sum.splits dest!: ctl_fail2 ctl_av_freep_avio_buffer)

lemma ctl_fail4: "fail4 self w = Inr (r, w') \<Longrightarrow> ctl w' = ctl w"
  by (auto simp: fail4_def split: sum.splits dest!: ctl_fail2 ctl_av_freep_avio_buffer)

lemma ctl_fail5: "fail5 self w = Inr (r, w') \<Longrightarrow> ctl w' = ctl w"
  by (auto simp: fail5_def split: sum.splits dest!: ctl_fail4 ctl_close_stream)

lemma ctl_setup_ws: "setup_ws pf lib self e w = Inr (r, w') \<Longrightarrow> ctl w' = ctl w"
  by (auto simp: setup_ws_def next_outcome_def Let_def split_beta
           split: option.splits if_splits sum.splits encoder_codec.splits prod.splits
           dest!: ctl_fail1 ctl_fail2 ctl_fail3 ctl_fail4 ctl_fail5 ctl_add_stream ctl_open_stream)

lemma ctl_write_audio_frame:
  "write_audio_frame pf lib self w = Inr (r, w') \<Longrightarrow> ctl w' = ctl w"
  by (auto simp: write_audio_frame_def next_outcome_def Let_def split_beta
           split: option.splits if_splits sum.splits prod.splits
           dest!: ctl_get_audio_frame ctl_encode_and_write_eq)

lemma ctl_on_flush: "ctl (on_flush pf lib w) = ctl w"
proof -
  have "ctl (w\<lparr>enc := (enc w)\<lparr>flush := False\<rparr>\<rparr>) = ctl w"
    by (simp add: ctl_def)
  then show ?thesis
    by (simp add: on_flush_def Let_def)
qed

lemma ctl_on_new_metadata: "on_new_metadata pf lib w = Inr w' \<Longrightarrow> ctl w' = ctl w"
proof -
  have *: "ctl (w\<lparr>enc := (enc w)\<lparr>new_metadata := False\<rparr>\<rparr>) = ctl w"
    by (simp add: ctl_def)
  assume "on_new_metadata pf lib w = Inr w'"
  then show ?thesis
    using *
    by (auto simp: on_new_metadata_def Let_def split: if_splits sum.splits
             dest!: ctl_teardown ctl_setup_ws)
qed

lemma ctl_bailout [simp]: "ctl (bailout w) = (ES_STOPPED, False, False, False)"
  by (simp add: ctl_def bailout_def release_def)

lemma ctl_set_state:
  "ctl (w\<lparr>enc := (enc w)\<lparr>encoder_state := s\<rparr>\<rparr>) = (s, snd (ctl w))"
  "ctl (w\<lparr>enc := (enc w)\<lparr>flush := b\<rparr>\<rparr>) = ctl w"
  by (simp_all add: ctl_def)

text \<open>What one call does to the four fields, by the state it is entered in.\<close>

lemma main_private:
  "live_webm_encoder_main pf lib w = Inr w' \<Longrightarrow> encoder_private (enc w)"
  by (auto simp: live_webm_encoder_main_def split: if_splits)

lemma main_from_starting:
  assumes "live_webm_encoder_main pf lib w = Inr w'" "encoder_state (enc w) = ES_STARTING"
  shows "ctl w' = (if run_request_f (enc w) then ES_RUNNING else ES_STOPPING, snd (ctl w))
         \<or> ctl w' = (ES_STOPPED, False, False, False)"
  using assms
  by (auto simp: live_webm_encoder_main_def ctl_set_state
           split: if_splits sum.splits prod.splits
           dest!: ctl_setup_ws ctl_teardown)
    (auto simp: ctl_def)

lemma main_from_running:
  assumes "live_webm_encoder_main pf lib w = Inr w'" "encoder_state (enc w) = ES_RUNNING"
  shows "ctl w' = ctl w \<or> ctl w' = (ES_STOPPING, snd (ctl w))"
  using assms
  by (auto simp: live_webm_encoder_main_def ctl_set_state ctl_on_flush
           split: if_splits sum.splits prod.splits
           dest!: ctl_on_new_metadata ctl_write_audio_frame)

lemma main_from_stopping:
  assumes "live_webm_encoder_main pf lib w = Inr w'" "encoder_state (enc w) = ES_STOPPING"
  shows "ctl w' = (if run_request_f (enc w) then (ES_STARTING, snd (ctl w))
                   else (ES_STOPPED, False, False, False))"
  using assms
  by (auto simp: live_webm_encoder_main_def ctl_set_state Let_def
           split: if_splits sum.splits prod.splits
           dest!: ctl_teardown)
    (auto simp: ctl_def)

lemma main_from_stopped:
  assumes "encoder_state (enc w) = ES_STOPPED" "encoder_private (enc w)"
  shows "live_webm_encoder_main pf lib w = Inr (bailout w)"
  using assms by (simp add: live_webm_encoder_main_def)

lemma run_stopping_world:
  "state_after (live_webm_encoder_main example_flags lib_ok stopping_world) = Some ES_STARTING"
  by code_simp

lemma run_halting_world:
  "state_after (live_webm_encoder_main example_flags lib_ok halting_world) = Some ES_STOPPED"
  by code_simp

lemma state_after_Some:
  "state_after r = Some s \<Longrightarrow> \<exists>w'. r = Inr w' \<and> encoder_state (enc w') = s"
  by (cases r) (simp_all add: state_after_def)

text \<open>
  C1, as amended. A call of \<open>live_webm_encoder_main\<close> that returns leaves
  \<open>encoder_state\<close> at the same or a later stage of STARTING, RUNNING, STOPPING, STOPPED,
  with one exception: entered in \<open>ES_STOPPING\<close> with \<open>run_request_f\<close> set, it sets
  \<open>ES_STARTING\<close>, and it does so always.
\<close>

theorem main_state_progress:
  assumes "live_webm_encoder_main pf lib w = Inr w'"
  shows "(stage (encoder_state (enc w)) \<le> stage (encoder_state (enc w'))
          \<or> encoder_state (enc w) = ES_STOPPING \<and> run_request_f (enc w)
             \<and> encoder_state (enc w') = ES_STARTING)
         \<and> (encoder_state (enc w) = ES_STOPPING \<and> run_request_f (enc w)
              \<longrightarrow> encoder_state (enc w') = ES_STARTING)"
proof (cases "encoder_state (enc w)")
  case ES_STOPPED
  from main_private [OF assms] main_from_stopped [OF ES_STOPPED, of pf lib] assms
  have "w' = bailout w" by simp
  then have "ctl w' = (ES_STOPPED, False, False, False)" by simp
  with ES_STOPPED show ?thesis by (simp add: ctl_def stage_def)
next
  case ES_STARTING
  from main_from_starting [OF assms ES_STARTING] ES_STARTING
  show ?thesis by (auto simp: ctl_def stage_def split: if_splits)
next
  case ES_RUNNING
  from main_from_running [OF assms ES_RUNNING] ES_RUNNING
  show ?thesis by (auto simp: ctl_def stage_def)
next
  case ES_STOPPING
  from main_from_stopping [OF assms ES_STOPPING] ES_STOPPING
  show ?thesis by (auto simp: ctl_def stage_def split: if_splits)
qed

theorem main_state_progress_witness:
  "\<exists>w'. live_webm_encoder_main example_flags lib_ok halting_world = Inr w'
        \<and> encoder_state (enc halting_world) = ES_STOPPING
        \<and> encoder_state (enc w') = ES_STOPPED
        \<and> stage (encoder_state (enc halting_world)) \<le> stage (encoder_state (enc w'))"
proof -
  from state_after_Some [OF run_halting_world]
  obtain w' where run: "live_webm_encoder_main example_flags lib_ok halting_world = Inr w'"
    and st: "encoder_state (enc w') = ES_STOPPED"
    by blast
  have e: "encoder_state (enc halting_world) = ES_STOPPING"
    by (simp add: halting_world_def stopping_world_def)
  from main_state_progress [OF run] st e
  have "stage (encoder_state (enc halting_world)) \<le> stage (encoder_state (enc w'))"
    by auto
  with run st e show ?thesis by blast
qed

text \<open>
  The claim as stated fails where the encoder is stopping while a run is requested: the
  state goes from \<open>ES_STOPPING\<close> back to \<open>ES_STARTING\<close>.
\<close>

theorem main_state_progress_counterexample:
  "encoder_state (enc stopping_world) = ES_STOPPING
   \<and> state_after (live_webm_encoder_main example_flags lib_ok stopping_world) = Some ES_STARTING
   \<and> stage ES_STARTING < stage ES_STOPPING"
  using run_stopping_world by (simp add: stopping_world_def stage_def)

text \<open>
  C3, as amended. The function assigns four values: \<open>ES_STARTING\<close>, \<open>ES_RUNNING\<close>,
  \<open>ES_STOPPING\<close> and, in its final cleanup, \<open>ES_STOPPED\<close>. After a call that returns,
  the state is \<open>ES_STOPPED\<close> exactly when the cleanup ran (it clears
  \<open>encoder_private\<close>, \<open>run_request_f\<close> and \<open>run_encoder\<close>); otherwise the call was
  entered in one of the three states it processes. Entered in any other state the
  function does the cleanup and nothing else.
\<close>

theorem main_states_assigned:
  assumes "live_webm_encoder_main pf lib w = Inr w'"
  shows "(encoder_state (enc w') = ES_STOPPED \<longleftrightarrow> \<not> encoder_private (enc w'))
         \<and> (encoder_state (enc w') = ES_STOPPED
              \<longrightarrow> \<not> run_request_f (enc w') \<and> \<not> run_encoder (enc w'))
         \<and> (encoder_state (enc w') \<noteq> ES_STOPPED
              \<longrightarrow> encoder_state (enc w) \<in> {ES_STARTING, ES_RUNNING, ES_STOPPING})
         \<and> (encoder_state (enc w) \<notin> {ES_STARTING, ES_RUNNING, ES_STOPPING}
              \<longrightarrow> w' = bailout w)"
proof (cases "encoder_state (enc w)")
  case ES_STOPPED
  from main_private [OF assms] main_from_stopped [OF ES_STOPPED, of pf lib] assms
  have b: "w' = bailout w" by simp
  then have "ctl w' = (ES_STOPPED, False, False, False)" by simp
  with ES_STOPPED b show ?thesis by (simp add: ctl_def)
next
  case ES_STARTING
  from main_from_starting [OF assms ES_STARTING] ES_STARTING main_private [OF assms]
  show ?thesis by (auto simp: ctl_def split: if_splits)
next
  case ES_RUNNING
  from main_from_running [OF assms ES_RUNNING] ES_RUNNING main_private [OF assms]
  show ?thesis by (auto simp: ctl_def)
next
  case ES_STOPPING
  from main_from_stopping [OF assms ES_STOPPING] ES_STOPPING main_private [OF assms]
  show ?thesis by (auto simp: ctl_def split: if_splits)
qed

theorem main_states_assigned_witness:
  "\<exists>w'. live_webm_encoder_main example_flags lib_ok stopping_world = Inr w'
        \<and> encoder_state (enc w') = ES_STARTING
        \<and> encoder_private (enc w')
        \<and> encoder_state (enc stopping_world) \<in> {ES_STARTING, ES_RUNNING, ES_STOPPING}"
proof -
  from state_after_Some [OF run_stopping_world]
  obtain w' where run: "live_webm_encoder_main example_flags lib_ok stopping_world = Inr w'"
    and st: "encoder_state (enc w') = ES_STARTING"
    by blast
  from main_states_assigned [OF run] st
  have "encoder_private (enc w')"
    and "encoder_state (enc stopping_world) \<in> {ES_STARTING, ES_RUNNING, ES_STOPPING}"
    by auto
  with run st show ?thesis by blast
qed

text \<open>
  The claim as stated fails where the encoder is stopping and no run is requested: the
  function assigns \<open>ES_STOPPED\<close>, which is none of the three states.
\<close>

theorem main_states_assigned_counterexample:
  "state_after (live_webm_encoder_main example_flags lib_ok halting_world) = Some ES_STOPPED
   \<and> ES_STOPPED \<notin> {ES_STARTING, ES_RUNNING, ES_STOPPING}"
  using run_halting_world by simp

section \<open>Streams, set-up failures and the mutex\<close>

lemma sys_steps [simp]:
  "tick (acquire r w) = tick w" "tick (release r w) = tick w" "tick (log_event e w) = tick w"
  "tick (mutex_unlock w) = tick w" "tick (avcodec_close w) = tick w"
  "trace (acquire r w) = trace w" "trace (release r w) = trace w"
  "trace (log_event e w) = trace w @ [e]"
  "trace (mutex_unlock w) = trace w @ [MutexUnlock]"
  "trace (avcodec_close w) = trace w @ [AvcodecClose]"
  "held (acquire r w) = held w" "held (release r w) = held w" "held (log_event e w) = held w"
  "held (mutex_unlock w) = False" "held (avcodec_close w) = held w"
  by (simp_all add: release_def acquire_def log_event_def mutex_unlock_def avcodec_close_def)

lemma next_outcome_sys [simp]:
  "fst (next_outcome lib w) = lib (tick w)" "tick (snd (next_outcome lib w)) = Suc (tick w)"
  "live (snd (next_outcome lib w)) = live w" "trace (snd (next_outcome lib w)) = trace w"
  "held (snd (next_outcome lib w)) = held w"
  by (simp_all add: next_outcome_def)

lemma mutex_lock_sys:
  "mutex_lock w = Inr w' \<Longrightarrow>
     \<not> held w \<and> held w' \<and> trace w' = trace w @ [MutexLock] \<and> tick w' = tick w
     \<and> live w' = live w"
  by (auto simp: mutex_lock_def log_event_def split: if_splits)

text \<open>
  C6. When \<open>add_stream\<close> succeeds (it returns the codec), the new stream's codec context
  has \<open>bit_rate = br\<close>, \<open>sample_rate = sr\<close>, \<open>channels = ch\<close>, the stereo layout when
  \<open>ch\<close> is 2 and the mono layout otherwise, and the stream's time base is \<open>1/sr\<close>.
\<close>

theorem add_stream_configures:
  assumes "add_stream lib self cid br sr ch w = Inr (Some cdc, w')"
  shows "map_option (\<lambda>s. (bit_rate (stream_codec s), sample_rate (stream_codec s),
                           channels (stream_codec s), channel_layout (stream_codec s),
                           time_base s))
           (st (ws self w'))
         = Some (br, sr, ch, if ch = 2 then AV_CH_LAYOUT_STEREO else AV_CH_LAYOUT_MONO, (1, sr))"
  using assms
  by (cases self)
     (auto simp: add_stream_def Let_def next_outcome_def ws_def set_ws_def
           split: option.splits if_splits list.splits)

lemma run_add_stream:
  "map_sum id fst (add_stream lib_ok PSelf AV_CODEC_ID_OPUS 128000 48000 2 stopping_world)
     = Inr (Some example_codec)"
  by code_simp

theorem add_stream_configures_witness:
  "\<exists>w'. add_stream lib_ok PSelf AV_CODEC_ID_OPUS 128000 48000 2 stopping_world
           = Inr (Some example_codec, w')
        \<and> map_option (\<lambda>s. (bit_rate (stream_codec s), sample_rate (stream_codec s),
                              channels (stream_codec s), channel_layout (stream_codec s),
                              time_base s))
              (st (ws PSelf w'))
            = Some (128000, 48000, 2, AV_CH_LAYOUT_STEREO, (1, 48000))"
proof -
  from run_add_stream
  obtain w' where run: "add_stream lib_ok PSelf AV_CODEC_ID_OPUS 128000 48000 2 stopping_world
                          = Inr (Some example_codec, w')"
    by (cases "add_stream lib_ok PSelf AV_CODEC_ID_OPUS 128000 48000 2 stopping_world") auto
  from add_stream_configures [OF run] run show ?thesis by simp
qed

text \<open>
  Where \<open>avio_alloc_context\<close> returns NULL, \<open>setup\<close> jumps to \<open>fail3\<close>, which reads
  \<open>self->avio_ctx->buffer\<close> through the null pointer just stored.
\<close>

lemma setup_avio_alloc_fails:
  assumes "data_format_codec (enc w) \<noteq> ENCODER_CODEC_OTHER"
    and "ret_ok (lib (tick w))"
    and "ret_oformat (lib (Suc (tick w))) \<noteq> None"
    and "ret_ok (lib (Suc (Suc (tick w))))"
    and "\<not> ret_ok (lib (Suc (Suc (Suc (tick w)))))"
  shows "setup_ws pf lib self e w = Inl NullDeref"
  using assms
  by (cases "data_format_codec (enc w)")
     (auto simp: setup_ws_def Let_def split_beta fail3_def av_freep_avio_buffer_def)

text \<open>
  C4, the failing input. With a supported codec and \<open>avio_alloc_context\<close> failing,
  \<open>setup\<close> does not return \<open>FAILED\<close>: it stops at the null pointer in \<open>fail3\<close>, with
  the format context and the buffer from \<open>av_malloc\<close> still allocated.
\<close>

theorem setup_avio_failure_crashes:
  "setup_ws example_flags lib_avio_fails PSelf (PF_SUPPRESS example_flags) fresh_world
     = Inl NullDeref"
  by code_simp

text \<open>
  A second failure path: where \<open>swr_alloc\<close> fails, \<open>open_stream\<close> closes the codec and
  returns, and \<open>setup\<close> returns \<open>FAILED\<close> through \<open>fail4\<close> with the two frames of
  \<open>alloc_audio_frame\<close> still allocated.
\<close>

lemma setup_swr_failure_leaks:
  "map_sum id (\<lambda>r. (fst r, live (snd r)))
     (setup_ws example_flags lib_swr_fails PSelf (PF_SUPPRESS example_flags) fresh_world)
   = Inr (FAILED, [ResFrame, ResFrame, ResWebMState, ResWebMState])"
  by code_simp

text \<open>The events of \<open>close_stream\<close> and of \<open>avcodecdecode_eject\<close>.\<close>

lemma free_steps_sys [simp]:
  "trace (free_frame self w) = trace w" "held (free_frame self w) = held w"
  "trace (free_tmp_frame self w) = trace w" "held (free_tmp_frame self w) = held w"
  "trace (swr_free self w) = trace w" "held (swr_free self w) = held w"
  by (simp_all add: swr_free_def free_tmp_frame_def free_frame_def Let_def)

lemma close_stream_trace:
  "close_stream self w = Inr w' \<Longrightarrow> trace w' = trace w @ [AvcodecClose] \<and> held w' = held w"
  by (auto simp: close_stream_def split: option.splits)

lemma eject_steps_sys [simp]:
  "trace (free_packet w) = trace w" "held (free_packet w) = held w"
  "trace (delete_resampler w) = trace w" "held (delete_resampler w) = held w"
  "trace (free_floatsamples w) = trace w" "held (free_floatsamples w) = held w"
  "trace (free_swr hs w) = trace w" "held (free_swr hs w) = held w"
  "trace (avformat_close_input w) = trace w" "held (avformat_close_input w) = held w"
  "trace (free_dec_frame w) = trace w" "held (free_dec_frame w) = held w"
  "trace (free_self w) = trace w" "held (free_self w) = held w"
  by (simp_all add: free_packet_def delete_resampler_def free_floatsamples_def free_swr_def
        avformat_close_input_def free_dec_frame_def free_self_def)

text \<open>
  \<open>avcodecdecode_eject\<close> calls \<open>avcodec_close\<close> once, between taking and releasing
  \<open>g.avc_mutex\<close>, and makes no other call into the codec open/close API.
\<close>

theorem eject_trace:
  "avcodecdecode_eject hs w = Inr w' \<Longrightarrow>
     trace w' = trace w @ [MutexLock, AvcodecClose, MutexUnlock] \<and> \<not> held w \<and> \<not> held w'"
  by (auto simp: avcodecdecode_eject_def split: if_splits sum.splits dest!: mutex_lock_sys)

lemma run_eject:
  "map_sum id trace (avcodecdecode_eject False decoder_world)
     = Inr [MutexLock, AvcodecClose, MutexUnlock]"
  by code_simp

theorem eject_trace_witness:
  "\<exists>w'. avcodecdecode_eject False decoder_world = Inr w'
        \<and> trace w' = trace decoder_world @ [MutexLock, AvcodecClose, MutexUnlock]
        \<and> guarded False (trace w')"
proof -
  from run_eject
  obtain w' where run: "avcodecdecode_eject False decoder_world = Inr w'"
    by (cases "avcodecdecode_eject False decoder_world") auto
  have "trace decoder_world = []"
    by (simp add: decoder_world_def)
  with eject_trace [OF run] run show ?thesis by simp
qed

text \<open>
  C2, the failing input. \<open>close_stream\<close>, which \<open>teardown\<close> runs at every stop of the
  encoder, calls \<open>avcodec_close\<close> without taking \<open>g.avc_mutex\<close>: entered without the
  mutex, its trace is the single event \<open>AvcodecClose\<close>, which is not guarded. The
  decoder's \<open>avcodecdecode_eject\<close> takes the mutex around the same call.
\<close>

theorem close_stream_not_guarded:
  "map_sum id trace (close_stream PSelf stopping_world) = Inr [AvcodecClose]
   \<and> held stopping_world = False
   \<and> guarded (held stopping_world) [AvcodecClose] = False"
  by code_simp

section \<open>The decoder's sample conversion\<close>

declare plane_loop.simps [simp del]

lemma plane_loop_stop:
  "\<not> 4 * int d < endp \<Longrightarrow> plane_loop conv chans l r d endp li ri out = Inr out"
  by (simp add: plane_loop.simps)

lemma plane_loop_step2:
  "4 * int d < endp \<Longrightarrow>
   plane_loop conv 2 l r d endp li ri out =
     (if length out \<le> d \<or> length l \<le> li \<or> length out \<le> Suc d \<or> length r \<le> ri
      then Inl OutOfBounds
      else plane_loop conv 2 l r (Suc (Suc d)) endp (Suc li) (Suc ri)
             (out[d := conv (l ! li), Suc d := conv (r ! ri)]))"
  by (subst plane_loop.simps) (simp add: Let_def)

lemma plane_loop_step1:
  "4 * int d < endp \<Longrightarrow> chans \<noteq> 2 \<Longrightarrow>
   plane_loop conv chans l r d endp li ri out =
     (if length out \<le> d \<or> length l \<le> li then Inl OutOfBounds
      else plane_loop conv chans l r (Suc d) endp (Suc li) ri (out[d := conv (l ! li)]))"
  by (subst plane_loop.simps) (simp add: Let_def)

text \<open>
  The loop never writes at or beyond the float that starts four bytes after \<open>endp\<close>:
  an element \<open>j\<close> with \<open>endp + 4 \<le> 4 * j\<close> keeps its old value. With two channels
  and \<open>endp = 2 * frames\<close> bytes, that is every element from \<open>frames div 2 + 1\<close> on.
\<close>

lemma plane_loop_beyond:
  "plane_loop conv chans l r d endp li ri out = Inr out' \<Longrightarrow> endp + 4 \<le> 4 * int j \<Longrightarrow>
     out' ! j = out ! j"
proof (induction conv chans l r d endp li ri out rule: plane_loop.induct)
  case (1 conv chans l r d endp li ri out)
  show ?case
  proof (cases "4 * int d < endp")
    case False
    with "1.prems" show ?thesis by (simp add: plane_loop_stop)
  next
    case True
    note run = True
    with "1.prems"(2) have far: "Suc d < j" by simp
    show ?thesis
    proof (cases "chans = 2")
      case True
      with run "1.prems" have ok: "\<not> (length out \<le> d \<or> length l \<le> li)"
          "\<not> (length out \<le> Suc d \<or> length r \<le> ri)"
        by (auto simp: plane_loop_step2 split: if_splits)
      with run True "1.prems" have
        "plane_loop conv chans l r (Suc (Suc d)) endp (Suc li) (Suc ri)
           (out[d := conv (l ! li), Suc d := conv (r ! ri)]) = Inr out'"
        by (simp add: plane_loop_step2)
      from "1.IH"(1) [OF run ok(1) refl True ok(2) this "1.prems"(2)] far
      show ?thesis by simp
    next
      case False
      with run "1.prems" have ok: "\<not> (length out \<le> d \<or> length l \<le> li)"
        by (auto simp: plane_loop_step1 split: if_splits)
      with run False "1.prems" have
        "plane_loop conv chans l r (Suc d) endp (Suc li) ri (out[d := conv (l ! li)]) = Inr out'"
        by (simp add: plane_loop_step1)
      from "1.IH"(2) [OF run ok refl False this "1.prems"(2)] far
      show ?thesis by simp
    qed
  qed
qed

text \<open>
  C8, the failing input. An S16P frame of two channels and two frames (\<open>buffer_size\<close>
  8): \<open>frames\<close> is 2 and \<open>endp\<close> is 4 bytes, so the loop runs once. It converts frame 0
  and leaves elements 2 and 3 of the output as they were, where the claim has sample 1
  of plane 0 and sample 1 of plane 1, each divided by 32768: the output is not the
  interleaving of the two frames.
\<close>

theorem play_convert_stops_early:
  "play_convert (\<lambda>b d f n k. b) AV_SAMPLE_FMT_S16P 2 8 example_planes (replicate 4 (FltOfInt 0))
     = Inr (Some (2, [FltDiv (FltOfInt 16384) (FltOfInt 32768),
                      FltDiv (FltOfInt 0) (FltOfInt 32768), FltOfInt 0, FltOfInt 0]))
   \<and> plane (as_s16 example_planes) 0 ! 1 = - 32768
   \<and> plane (as_s16 example_planes) 1 ! 1 = 8192
   \<and> [FltDiv (FltOfInt 16384) (FltOfInt 32768), FltDiv (FltOfInt 0) (FltOfInt 32768),
       FltOfInt 0, FltOfInt 0] ! (2 * 1)
       \<noteq> FltDiv (FltOfInt (sint (plane (as_s16 example_planes) 0 ! 1))) (FltOfInt 32768)
   \<and> [FltDiv (FltOfInt 16384) (FltOfInt 32768), FltDiv (FltOfInt 0) (FltOfInt 32768),
       FltOfInt 0, FltOfInt 0] ! (2 * 1 + 1)
       \<noteq> FltDiv (FltOfInt (sint (plane (as_s16 example_planes) 1 ! 1))) (FltOfInt 32768)"
proof (intro conjI)
  show "play_convert (\<lambda>b d f n k. b) AV_SAMPLE_FMT_S16P 2 8 example_planes
          (replicate 4 (FltOfInt 0))
        = Inr (Some (2, [FltDiv (FltOfInt 16384) (FltOfInt 32768),
                         FltDiv (FltOfInt 0) (FltOfInt 32768), FltOfInt 0, FltOfInt 0]))"
    by code_simp
  show "plane (as_s16 example_planes) 0 ! 1 = - 32768"
    by (simp add: plane_def example_planes_def)
  show "plane (as_s16 example_planes) 1 ! 1 = 8192"
    by (simp add: plane_def example_planes_def)
  show "[FltDiv (FltOfInt 16384) (FltOfInt 32768), FltDiv (FltOfInt 0) (FltOfInt 32768),
         FltOfInt 0, FltOfInt 0] ! (2 * 1)
        \<noteq> FltDiv (FltOfInt (sint (plane (as_s16 example_planes) 0 ! 1))) (FltOfInt 32768)"
    by simp
  show "[FltDiv (FltOfInt 16384) (FltOfInt 32768), FltDiv (FltOfInt 0) (FltOfInt 32768),
         FltOfInt 0, FltOfInt 0] ! (2 * 1 + 1)
        \<noteq> FltDiv (FltOfInt (sint (plane (as_s16 example_planes) 1 ! 1))) (FltOfInt 32768)"
    by simp
qed

section \<open>The decoder's registration and resampler\<close>

lemma dec_sys_steps [simp]:
  "vars (release r w) = vars w" "xl (release r w) = xl w" "calls (release r w) = calls w"
  "vars (acquire r w) = vars w" "xl (acquire r w) = xl w" "calls (acquire r w) = calls w"
  "vars (log_event e w) = vars w" "xl (log_event e w) = xl w" "calls (log_event e w) = calls w"
  "vars (mutex_unlock w) = vars w" "xl (mutex_unlock w) = xl w" "calls (mutex_unlock w) = calls w"
  "vars (avcodec_close w) = vars w" "xl (avcodec_close w) = xl w"
  "calls (avcodec_close w) = calls w"
  "vars (snd (next_outcome lib w)) = vars w" "xl (snd (next_outcome lib w)) = xl w"
  "calls (snd (next_outcome lib w)) = calls w"
  by (simp_all add: release_def acquire_def log_event_def mutex_unlock_def avcodec_close_def
        next_outcome_def)

lemma mutex_lock_dec:
  "mutex_lock w = Inr w' \<Longrightarrow> vars w' = vars w \<and> xl w' = xl w \<and> calls w' = calls w"
  by (auto simp: mutex_lock_def log_event_def split: if_splits)

lemma sint_eq_uint_small: "uint (x :: 32 word) < 2 ^ 31 \<Longrightarrow> sint x = uint x"
proof -
  assume a: "uint x < 2 ^ 31"
  have "- (2 ^ 31) \<le> uint x" by (rule order_trans [of _ 0]) simp_all
  with a show ?thesis
    by (simp add: sint_uint signed_take_bit_int_eq_self)
qed

lemma eject_steps_dec [simp]:
  "resample (vars (free_packet w)) = resample (vars w)"
  "resample (vars (delete_resampler w)) = resample (vars w)"
  "resample (vars (free_floatsamples w)) = resample (vars w)"
  "resample (vars (free_swr hs w)) = resample (vars w)"
  "resample (vars (avformat_close_input w)) = resample (vars w)"
  "resample (vars (free_dec_frame w)) = resample (vars w)"
  "resample (vars (free_self w)) = resample (vars w)"
  by (simp_all add: free_packet_def delete_resampler_def free_floatsamples_def free_swr_def
        avformat_close_input_def free_dec_frame_def free_self_def)

lemma eject_resample:
  "avcodecdecode_eject hs w = Inr w' \<Longrightarrow> resample (vars w') = resample (vars w)"
  by (auto simp: avcodecdecode_eject_def split: if_splits sum.splits dest!: mutex_lock_dec)

lemma init_failed_result:
  "init_failed hs w = Inr w' \<Longrightarrow>
     \<not> resample (vars w') \<and> playmode (xl w') = PM_STOPPED \<and> command (xl w') = CMD_COMPLETE"
  by (auto simp: init_failed_def split: sum.splits dest!: eject_resample)

lemma init_seek_simps [simp]:
  "xl (init_seek lib ctx w) = xl w" "live (init_seek lib ctx w) = live w"
  "tick (init_seek lib ctx w) = tick w + (if seek_s (xl w) \<noteq> 0 then 1 else 0)"
  "resample (vars (init_seek lib ctx w)) = resample (vars w)"
  by (simp_all add: init_seek_def Let_def)

lemma set_src_data_simps [simp]:
  "vars (set_src_data f w) = vars w" "tick (set_src_data f w) = tick w"
  "src_data (xl (set_src_data f w)) = f (src_data (xl w))"
  "samplerate (xl (set_src_data f w)) = samplerate (xl w)"
  by (simp_all add: set_src_data_def)

lemma init_equal_rates:
  assumes "avcodecdecode_init hs lib w = Inr w'" "c (vars w) = Some ctx"
    "sample_rate ctx = sint (samplerate (xl w))"
  shows "\<not> resample (vars w') \<and> src_state (xl w') = src_state (xl w)
         \<and> src_data (xl w') = src_data (xl w) \<and> live w' = live w"
  using assms
  by (auto simp: avcodecdecode_init_def Let_def split: if_splits)

lemma init_src_new_result:
  "init_src_new hs lib w = Inr w' \<Longrightarrow>
     (ret_int (lib (tick w)) = 0 \<longrightarrow>
        resample (vars w') = resample (vars w) \<and> src_data (xl w') = src_data (xl w))
     \<and> (ret_int (lib (tick w)) \<noteq> 0 \<longrightarrow>
        \<not> resample (vars w') \<and> playmode (xl w') = PM_STOPPED
        \<and> command (xl w') = CMD_COMPLETE)"
  by (auto simp: init_src_new_def Let_def split_beta split: if_splits dest!: init_failed_result)

lemma init_resampler_result:
  "init_resampler hs lib ctx w = Inr w' \<Longrightarrow> resample (vars w) \<Longrightarrow>
     (resample (vars w') \<longleftrightarrow> ret_ok (lib (tick w)) \<and> ret_int (lib (Suc (tick w))) = 0)
     \<and> (resample (vars w') \<longrightarrow> src_ratio (src_data (xl w')) =
           DblDiv (DblOfInt (uint (samplerate (xl w)))) (DblOfInt (sample_rate ctx)))
     \<and> (\<not> resample (vars w') \<longrightarrow>
           playmode (xl w') = PM_STOPPED \<and> command (xl w') = CMD_COMPLETE)"
  by (auto simp: init_resampler_def Let_def split_beta
           split: if_splits dest!: init_failed_result init_src_new_result)

lemma init_differing_rates:
  assumes "avcodecdecode_init hs lib w = Inr w'" "c (vars w) = Some ctx"
    "sample_rate ctx \<noteq> sint (samplerate (xl w))"
  shows "(resample (vars w') \<longleftrightarrow> init_calls_ok lib w)
     \<and> (resample (vars w') \<longrightarrow> src_ratio (src_data (xl w')) =
           DblDiv (DblOfInt (uint (samplerate (xl w)))) (DblOfInt (sample_rate ctx)))
     \<and> (\<not> resample (vars w') \<longrightarrow>
           playmode (xl w') = PM_STOPPED \<and> command (xl w') = CMD_COMPLETE)"
  using assms
  by (auto simp: avcodecdecode_init_def Let_def init_calls_ok_def
           split: if_splits dest!: init_resampler_result)

lemma count_list_remove1:
  "count_list (remove1 r xs) x = (if r = x then count_list xs x - 1 else count_list xs x)"
  by (induction xs) auto

lemma decoder_states_sys [simp]:
  "decoder_states (release r w) =
     (if r = ResDecoderVars then decoder_states w - 1 else decoder_states w)"
  "decoder_states (acquire r w) =
     (if r = ResDecoderVars then Suc (decoder_states w) else decoder_states w)"
  "decoder_states (log_event e w) = decoder_states w"
  "decoder_states (mutex_unlock w) = decoder_states w"
  "decoder_states (avcodec_close w) = decoder_states w"
  "decoder_states (snd (next_outcome lib w)) = decoder_states w"
  "decoder_states (w\<lparr>xl := x\<rparr>) = decoder_states w"
  "decoder_states (w\<lparr>vars := v\<rparr>) = decoder_states w"
  by (simp_all add: decoder_states_def release_def acquire_def log_event_def mutex_unlock_def
        avcodec_close_def next_outcome_def count_list_remove1)

lemma decoder_states_eject_steps [simp]:
  "decoder_states (free_packet w) = decoder_states w"
  "decoder_states (delete_resampler w) = decoder_states w"
  "decoder_states (free_floatsamples w) = decoder_states w"
  "decoder_states (free_swr hs w) = decoder_states w"
  "decoder_states (avformat_close_input w) = decoder_states w"
  "decoder_states (free_dec_frame w) = decoder_states w"
  "decoder_states (free_self w) = decoder_states w - 1"
  by (simp_all add: free_packet_def delete_resampler_def free_floatsamples_def free_swr_def
        avformat_close_input_def free_dec_frame_def free_self_def)

lemma decoder_states_init_steps [simp]:
  "decoder_states (init_seek lib ctx w) = decoder_states w"
  "decoder_states (set_src_data f w) = decoder_states w"
  "trace (init_seek lib ctx w) = trace w"
  "trace (set_src_data f w) = trace w"
  by (simp_all add: init_seek_def set_src_data_def Let_def)

lemma mutex_lock_states:
  "mutex_lock w = Inr w' \<Longrightarrow>
     decoder_states w' = decoder_states w \<and> trace w' = trace w @ [MutexLock]"
  by (auto simp: mutex_lock_def log_event_def decoder_states_def split: if_splits)

lemma eject_effects:
  "avcodecdecode_eject hs w = Inr w' \<Longrightarrow>
     trace w' = trace w @ [MutexLock, AvcodecClose, MutexUnlock]
     \<and> decoder_states w' = decoder_states w - 1"
  by (auto simp: avcodecdecode_eject_def split: if_splits sum.splits dest!: mutex_lock_states)

lemma init_failed_ejects:
  "init_failed hs w = Inr w' \<Longrightarrow>
     trace w' = trace w @ [MutexLock, AvcodecClose, MutexUnlock]
     \<and> decoder_states w' = decoder_states w - 1"
  by (auto simp: init_failed_def split: sum.splits dest!: eject_effects)

lemma init_src_new_ejects:
  "init_src_new hs lib w = Inr w' \<Longrightarrow> ret_int (lib (tick w)) \<noteq> 0 \<Longrightarrow>
     trace w' = trace w @ [MutexLock, AvcodecClose, MutexUnlock]
     \<and> decoder_states w' = decoder_states w - 1"
  by (auto simp: init_src_new_def Let_def split_beta split: if_splits dest!: init_failed_ejects)

lemma init_resampler_ejects:
  "init_resampler hs lib ctx w = Inr w' \<Longrightarrow>
     \<not> (ret_ok (lib (tick w)) \<and> ret_int (lib (Suc (tick w))) = 0) \<Longrightarrow>
     trace w' = trace w @ [MutexLock, AvcodecClose, MutexUnlock]
     \<and> decoder_states w' = decoder_states w - 1"
  by (auto simp: init_resampler_def Let_def split_beta
           split: if_splits dest!: init_failed_ejects init_src_new_ejects)

lemma init_differing_ejects:
  assumes "avcodecdecode_init hs lib w = Inr w'" "c (vars w) = Some ctx"
    "sample_rate ctx \<noteq> sint (samplerate (xl w))" "\<not> init_calls_ok lib w"
  shows "trace w' = trace w @ [MutexLock, AvcodecClose, MutexUnlock]
         \<and> decoder_states w' = decoder_states w - 1"
  using assms
  by (auto simp: avcodecdecode_init_def Let_def init_calls_ok_def
           split: if_splits dest!: init_resampler_ejects)

lemma play_deliver_direct:
  assumes "\<not> resample (vars w)" "dv_frame (vars w) = Some fr"
  shows "play_deliver lib w =
           Inr (w\<lparr>calls := calls w @
                  [DemuxChannelData BufFloatSamples (nb_samples fr) (dv_channels (vars w))]\<rparr>)"
  using assms by (simp add: play_deliver_def)

lemma resample_after_Some:
  "resample_after r = Some b \<Longrightarrow> \<exists>w'. r = Inr w' \<and> resample (vars w') = b"
  by (cases r) (simp_all add: resample_after_def)

lemma run_init_ok:
  "resample_after (avcodecdecode_init False lib_ok decoder_world) = Some True"
  by code_simp

lemma run_init_malloc_outcome:
  "init_outcome (avcodecdecode_init False lib_malloc_fails decoder_world)
     = Some (PM_STOPPED, False, [])"
  by code_simp

lemma run_init_wrapped:
  "init_outcome (avcodecdecode_init False lib_ok wrapped_world)
     = Some (PM_OTHER, False, [ResOpenCodec, ResInput, ResDecoderVars])"
  by code_simp

lemma wrapped_rate: "uint (samplerate (xl wrapped_world)) = 4294967295"
  by code_simp

text \<open>
  C7, as amended. A call of \<open>avcodecdecode_init\<close> that returns, on a decoder whose
  codec context is set, has engaged the resampler exactly when the stream's sample rate
  differs from the player's sample rate cast to \<open>int\<close>, as line 93 compares them, and
  both the allocation of the output buffer and \<open>src_new\<close> succeeded; for a player rate
  below \<open>2^31\<close> the cast changes nothing. When the resampler is engaged, \<open>src_ratio\<close> is
  the player's rate (not cast) divided by the stream's. Where the rates so compared
  differ and one of the two calls fails, the resampler is not engaged and the decoder has
  been ejected: \<open>avcodec_close\<close> was called once, between taking and releasing
  \<open>g.avc_mutex\<close>, the number of allocated decoder state objects has gone down by one
  (from none it stays none), \<open>playmode\<close> is \<open>PM_STOPPED\<close> and \<open>command\<close> is
  \<open>CMD_COMPLETE\<close>. Where the rates so compared are equal, no resampler state is created
  (the allocated objects, \<open>src_state\<close> and \<open>src_data\<close> are as before the call), and with
  the resampler not engaged \<open>avcodecdecode_play\<close> hands the converted frame,
  \<open>floatsamples\<close> with \<open>nb_samples\<close> frames, straight to
  \<open>xlplayer_demux_channel_data\<close> without calling \<open>src_process\<close>.
\<close>

theorem init_resampler_engaged:
  assumes run: "avcodecdecode_init hs lib w = Inr w'"
    and ctx: "c (vars w) = Some ctx"
  shows "(resample (vars w') \<longleftrightarrow>
            sample_rate ctx \<noteq> sint (samplerate (xl w)) \<and> init_calls_ok lib w)
         \<and> (uint (samplerate (xl w)) < 2 ^ 31 \<longrightarrow>
              sint (samplerate (xl w)) = uint (samplerate (xl w)))
         \<and> (resample (vars w') \<longrightarrow>
              src_ratio (src_data (xl w')) =
                DblDiv (DblOfInt (uint (samplerate (xl w)))) (DblOfInt (sample_rate ctx)))
         \<and> (sample_rate ctx \<noteq> sint (samplerate (xl w)) \<and> \<not> init_calls_ok lib w \<longrightarrow>
              playmode (xl w') = PM_STOPPED \<and> command (xl w') = CMD_COMPLETE
              \<and> trace w' = trace w @ [MutexLock, AvcodecClose, MutexUnlock]
              \<and> decoder_states w' = decoder_states w - 1)
         \<and> (sample_rate ctx = sint (samplerate (xl w)) \<longrightarrow>
              src_state (xl w') = src_state (xl w) \<and> src_data (xl w') = src_data (xl w)
              \<and> live w' = live w)
         \<and> (\<not> resample (vars w') \<and> dv_frame (vars w') = Some fr \<longrightarrow>
              play_deliver lib' w' =
                Inr (w'\<lparr>calls := calls w' @
                       [DemuxChannelData BufFloatSamples (nb_samples fr)
                          (dv_channels (vars w'))]\<rparr>))"
proof -
  have cast: "uint (samplerate (xl w)) < 2 ^ 31 \<longrightarrow>
              sint (samplerate (xl w)) = uint (samplerate (xl w))"
    by (simp add: sint_eq_uint_small)
  have pass: "\<not> resample (vars w') \<and> dv_frame (vars w') = Some fr \<longrightarrow>
              play_deliver lib' w' =
                Inr (w'\<lparr>calls := calls w' @
                       [DemuxChannelData BufFloatSamples (nb_samples fr)
                          (dv_channels (vars w'))]\<rparr>)"
    by (simp add: play_deliver_direct)
  show ?thesis
  proof (cases "sample_rate ctx = sint (samplerate (xl w))")
    case True
    from init_equal_rates [OF run ctx True] True cast pass
    show ?thesis by simp
  next
    case False
    note differing = init_differing_rates [OF run ctx False]
    show ?thesis
    proof (cases "init_calls_ok lib w")
      case True
      with differing False cast pass show ?thesis by simp
    next
      case bad: False
      from init_differing_ejects [OF run ctx False bad] differing False bad cast pass
      show ?thesis by simp
    qed
  qed
qed

theorem init_resampler_engaged_witness:
  "c (vars decoder_world) = Some example_context
   \<and> sample_rate example_context = 44100
   \<and> sint (samplerate (xl decoder_world)) = 48000
   \<and> init_calls_ok lib_ok decoder_world
   \<and> (\<exists>w'. avcodecdecode_init False lib_ok decoder_world = Inr w'
           \<and> resample (vars w')
           \<and> src_ratio (src_data (xl w')) = DblDiv (DblOfInt 48000) (DblOfInt 44100))"
proof -
  have ctx: "c (vars decoder_world) = Some example_context"
    by (simp add: decoder_world_def)
  have ok: "init_calls_ok lib_ok decoder_world"
    by (simp add: init_calls_ok_def lib_ok_def)
  have rates: "uint (samplerate (xl decoder_world)) = 48000"
    "sint (samplerate (xl decoder_world)) = 48000" "sample_rate example_context = 44100"
    by (simp_all add: decoder_world_def example_player_def example_context_def)
  from resample_after_Some [OF run_init_ok]
  obtain w' where run: "avcodecdecode_init False lib_ok decoder_world = Inr w'"
    and rs: "resample (vars w')"
    by blast
  from init_resampler_engaged [OF run ctx] rs rates
  have "src_ratio (src_data (xl w')) = DblDiv (DblOfInt 48000) (DblOfInt 44100)"
    by simp
  with run rs ctx ok rates show ?thesis by blast
qed

text \<open>
  The claim as stated fails twice. Where the rates differ (44100 and 48000) and the
  output buffer cannot be allocated, \<open>avcodecdecode_init\<close> returns with the player
  stopped, no resampler state and every object of the decoder freed. And a stream rate
  of \<open>-1\<close> differs from a player rate of \<open>4294967295\<close>, yet line 93 compares
  \<open>-1\<close> with \<open>(int)4294967295 = -1\<close>: with every call succeeding, \<open>avcodecdecode_init\<close>
  returns with the player running, no resampler state and nothing allocated for one.
\<close>

theorem init_resampler_engaged_counterexample:
  "c (vars decoder_world) = Some example_context
   \<and> sample_rate example_context = 44100
   \<and> uint (samplerate (xl decoder_world)) = 48000
   \<and> init_outcome (avcodecdecode_init False lib_malloc_fails decoder_world)
       = Some (PM_STOPPED, False, [])
   \<and> c (vars wrapped_world) = Some (example_context\<lparr>sample_rate := - 1\<rparr>)
   \<and> uint (samplerate (xl wrapped_world)) = 4294967295
   \<and> live wrapped_world = [ResOpenCodec, ResInput, ResDecoderVars]
   \<and> init_outcome (avcodecdecode_init False lib_ok wrapped_world)
       = Some (PM_OTHER, False, [ResOpenCodec, ResInput, ResDecoderVars])"
proof -
  have "c (vars decoder_world) = Some example_context"
    "sample_rate example_context = 44100"
    "uint (samplerate (xl decoder_world)) = 48000"
    "c (vars wrapped_world) = Some (example_context\<lparr>sample_rate := - 1\<rparr>)"
    "live wrapped_world = [ResOpenCodec, ResInput, ResDecoderVars]"
    by (simp_all add: decoder_world_def wrapped_world_def example_player_def
          example_context_def)
  with run_init_malloc_outcome run_init_wrapped wrapped_rate show ?thesis
    by simp
qed

text \<open>
  C5, the failing input. For a file with one stream and no audio stream,
  \<open>av_find_best_stream\<close> answers a negative error code. Stored in the unsigned
  \<open>self->stream\<close> it is a large index, the test \<open>< 0\<close> is false, and
  \<open>avcodecdecode_reg\<close> goes on to read \<open>self->ic->streams[self->stream]\<close> beyond
  the array instead of returning \<open>REJECTED\<close>.
\<close>

theorem reg_without_audio_stream:
  "avcodecdecode_reg False lib_no_audio unregistered_world = Inl OutOfBounds"
  by (simp add: avcodecdecode_reg_def unregistered_world_def lib_no_audio_def lib_ok_def
        next_outcome_def Let_def read_tags_def acquire_def mutex_lock_def mutex_unlock_def
        log_event_def AVERROR_STREAM_NOT_FOUND_def example_player_def zeroed_vars_def
        unat_eq_nat_uint)

end
